theory Spec2Isabelle
  imports Complex_Main "HOL-Library.Char_ord" "HOL-Library.List_Lexorder"
    "HOL-Library.Product_Lexorder" "HOL-Library.Word"
begin

section \<open>JavaScript numbers\<close>

text \<open>
  The confidence score is computed with JavaScript numbers, that is IEEE 754 binary64 values
  under round-to-nearest, ties-to-even. A finite number is modelled by the real it denotes;
  every arithmetic operation computes the exact result and rounds it with \<open>rnd\<close> to a
  53-bit significand. The exponent is not bounded: the values of this program (multiples of
  small constants between 0 and 1, and counts divided by 5, 10 or 20) neither overflow nor
  reach the subnormal range, and no operation here produces NaN.
\<close>

definition round_half_even :: "real \<Rightarrow> int" where
  "round_half_even x =
     (let f = \<lfloor>x\<rfloor>; r = x - of_int f
      in if r < 1/2 then f
         else if 1/2 < r then f + 1
         else if even f then f else f + 1)"

text \<open>\<open>ilog2 x\<close> is the binary exponent \<open>e\<close> of a positive \<open>x\<close>: \<open>2^e \<le> x < 2^(e+1)\<close>.\<close>

function ilog2_up :: "real \<Rightarrow> nat" where
  "ilog2_up x = (if 2 \<le> x then Suc (ilog2_up (x / 2)) else 0)"
  by pat_completeness auto
termination
proof (relation "measure (\<lambda>x. nat \<lfloor>x\<rfloor>)")
  show "wf (measure (\<lambda>x::real. nat \<lfloor>x\<rfloor>))" by simp
next
  fix x :: real
  assume h: "2 \<le> x"
  have "\<lfloor>x / 2\<rfloor> < \<lfloor>x\<rfloor>" using h by (simp add: floor_less_iff) linarith
  moreover have "0 < \<lfloor>x\<rfloor>" using h by simp
  ultimately show "(x / 2, x) \<in> measure (\<lambda>x. nat \<lfloor>x\<rfloor>)" by simp
qed

function ilog2_down :: "real \<Rightarrow> nat" where
  "ilog2_down x = (if 0 < x \<and> x < 1 then Suc (ilog2_down (2 * x)) else 0)"
  by pat_completeness auto
termination
proof (relation "measure (\<lambda>x. nat \<lfloor>1 / x\<rfloor>)")
  show "wf (measure (\<lambda>x::real. nat \<lfloor>1 / x\<rfloor>))" by simp
next
  fix x :: real
  assume h: "0 < x \<and> x < 1"
  define y where "y = 1 / x"
  have y: "1 < y" using h by (simp add: y_def)
  then have f1: "1 \<le> \<lfloor>y\<rfloor>" by simp
  have f2: "y < of_int \<lfloor>y\<rfloor> + 1" by linarith
  have f3: "(1::real) \<le> of_int \<lfloor>y\<rfloor>" using f1 by linarith
  have "y / 2 < of_int \<lfloor>y\<rfloor>" using f2 f3 by linarith
  then have "\<lfloor>y / 2\<rfloor> < \<lfloor>y\<rfloor>"
    by (simp only: floor_less_iff)
  moreover have "1 / (2 * x) = y / 2" by (simp add: y_def)
  moreover note y_def [symmetric]
  ultimately have "\<lfloor>1 / (2 * x)\<rfloor> < \<lfloor>1 / x\<rfloor>" by (simp only:)
  with f1 show "(2 * x, x) \<in> measure (\<lambda>x. nat \<lfloor>1 / x\<rfloor>)" by (simp add: y_def)
qed

declare ilog2_up.simps [simp del] ilog2_down.simps [simp del]

definition ilog2 :: "real \<Rightarrow> int" where
  "ilog2 x = (if 1 \<le> x then int (ilog2_up x) else - int (ilog2_down x))"

definition round_pos :: "real \<Rightarrow> real" where
  "round_pos x = (let e = ilog2 x
                  in of_int (round_half_even (x * 2 powi (52 - e))) * 2 powi (e - 52))"

text \<open>Rounding of an exact result to the nearest binary64 value.\<close>

definition rnd :: "real \<Rightarrow> real" where
  "rnd x = (if x = 0 then 0 else if 0 < x then round_pos x else - round_pos (- x))"

text \<open>The operators \<open>+\<close> and \<open>/\<close> of the source, and a decimal literal such as \<open>0.15\<close>.\<close>

definition js_add :: "real \<Rightarrow> real \<Rightarrow> real" where
  "js_add a b = rnd (a + b)"

definition js_div :: "real \<Rightarrow> real \<Rightarrow> real" where
  "js_div a b = rnd (a / b)"

definition js_lit :: "real \<Rightarrow> real" where
  "js_lit q = rnd q"

text \<open>The number held by a count (a \<open>Set\<close> size, an array length, a counter).\<close>

definition js_count :: "nat \<Rightarrow> real" where
  "js_count n = rnd (of_nat n)"

section \<open>Data model\<close>

text \<open>
  A JavaScript string is a sequence of UTF-16 code units, and the default \<open>Array.sort\<close>
  orders strings by them. The dates, which the handler sorts, are therefore lists of code
  units, ordered lexicographically. The other strings of the program are only compared for
  equality with ASCII literals, tested for emptiness or copied into a text, and are kept as
  \<open>string\<close>; \<open>utf16\<close> gives the code units of an ASCII literal.
\<close>

type_synonym code_unit = "16 word"
type_synonym js_string = "code_unit list"

definition code_unit_of :: "char \<Rightarrow> code_unit" where
  "code_unit_of c = of_nat (of_char c)"

definition utf16 :: "string \<Rightarrow> js_string" where
  "utf16 s = map code_unit_of s"

text \<open>
  An activity is an untyped object in the source (\<open>any\<close>); the record has the fields the
  engine reads, each absent (\<open>None\<close>) or present. The counts of the metrics are sizes and
  lengths, hence naturals.
\<close>

record learning_signals =
  error_correction_cycles :: "int option"

record activity =
  title :: "string option"
  type :: "string option"
  date :: "js_string option"
  created_at :: "js_string option"
  evidence_source :: "string option"
  learning_signals :: "learning_signals option"
  duration_minutes :: "int option"

record EvidenceMetrics =
  uniqueDays :: nat
  sessionCount :: nat
  hasObservedEvidence :: bool
  observedSessionCount :: nat
  hasErrorCorrectionCycles :: bool
  activityTypes :: "string list"

text \<open>The client's interface in \<open>proofCardRules.ts\<close> has one more field.\<close>

record EvidenceMetrics_client = EvidenceMetrics +
  totalDuration :: int

record UnlockRequirements =
  multiple_days :: bool
  multiple_sessions :: bool
  observed_evidence :: bool
  growth_signal :: bool
  consistency :: bool

definition MIN_UNIQUE_DAYS :: nat where "MIN_UNIQUE_DAYS = 3"
definition MIN_SESSIONS :: nat where "MIN_SESSIONS = 3"
definition MIN_OBSERVED_SESSIONS :: nat where "MIN_OBSERVED_SESSIONS = 1"

section \<open>Evidence aggregator\<close>

text \<open>\<open>s.split('T')[0]\<close>: the part of \<open>s\<close> before the first \<open>T\<close>.\<close>

definition split_T_first :: "js_string \<Rightarrow> js_string" where
  "split_T_first s = takeWhile (\<lambda>c. c \<noteq> code_unit_of CHR ''T'') s"

text \<open>Truthiness of an optional string: \<open>undefined\<close> and \<open>""\<close> are falsy.\<close>

definition truthy_str :: "'a list option \<Rightarrow> bool" where
  "truthy_str v = (case v of None \<Rightarrow> False | Some s \<Rightarrow> s \<noteq> [])"

text \<open>\<open>Set.add\<close>: a \<open>Set\<close> keeps its elements once, in insertion order.\<close>

definition set_add :: "'a list \<Rightarrow> 'a \<Rightarrow> 'a list" where
  "set_add xs x = (if x \<in> set xs then xs else xs @ [x])"

text \<open>Server: \<open>activity.date?.split('T')[0]\<close>.\<close>

definition dateStr :: "activity \<Rightarrow> js_string option" where
  "dateStr a = map_option split_T_first (date a)"

text \<open>Client: \<open>activity.created_at?.split('T')[0] || activity.date?.split('T')[0]\<close>.\<close>

definition dateStr_client :: "activity \<Rightarrow> js_string option" where
  "dateStr_client a =
     (if truthy_str (map_option split_T_first (created_at a))
      then map_option split_T_first (created_at a)
      else map_option split_T_first (date a))"

definition isObserved :: "activity \<Rightarrow> bool" where
  "isObserved a = (evidence_source a = Some ''observed_in_proof'' \<or> learning_signals a \<noteq> None)"

text \<open>\<open>activity.learning_signals?.error_correction_cycles > 0\<close>.\<close>

definition has_cycles :: "activity \<Rightarrow> bool" where
  "has_cycles a =
     (case learning_signals a of
        None \<Rightarrow> False
      | Some ls \<Rightarrow> (case error_correction_cycles ls of None \<Rightarrow> False | Some n \<Rightarrow> 0 < n))"

text \<open>The local variables of the aggregation loop.\<close>

record agg =
  uniqueDates :: "js_string list"
  agg_hasObservedEvidence :: bool
  agg_observedSessionCount :: nat
  agg_totalDuration :: int
  agg_hasErrorCorrectionCycles :: bool
  agg_activityTypes :: "string list"

definition agg_init :: agg where
  "agg_init = \<lparr>uniqueDates = [], agg_hasObservedEvidence = False, agg_observedSessionCount = 0,
     agg_totalDuration = 0, agg_hasErrorCorrectionCycles = False, agg_activityTypes = []\<rparr>"

text \<open>One iteration of the server's loop (the server keeps no duration).\<close>

definition agg_step :: "agg \<Rightarrow> activity \<Rightarrow> agg" where
  "agg_step s a =
     (let s1 = (if truthy_str (dateStr a)
                then s\<lparr>uniqueDates := set_add (uniqueDates s) (the (dateStr a))\<rparr> else s);
          s2 = (if truthy_str (type a)
                then s1\<lparr>agg_activityTypes := set_add (agg_activityTypes s1) (the (type a))\<rparr>
                else s1);
          s3 = (if isObserved a
                then s2\<lparr>agg_hasObservedEvidence := True,
                        agg_observedSessionCount := agg_observedSessionCount s2 + 1\<rparr>
                else s2)
      in if has_cycles a then s3\<lparr>agg_hasErrorCorrectionCycles := True\<rparr> else s3)"

text \<open>One iteration of the client's loop.\<close>

definition agg_step_client :: "agg \<Rightarrow> activity \<Rightarrow> agg" where
  "agg_step_client s a =
     (let s1 = (if truthy_str (dateStr_client a)
                then s\<lparr>uniqueDates := set_add (uniqueDates s) (the (dateStr_client a))\<rparr> else s);
          s2 = (if truthy_str (type a)
                then s1\<lparr>agg_activityTypes := set_add (agg_activityTypes s1) (the (type a))\<rparr>
                else s1);
          s3 = (if isObserved a
                then s2\<lparr>agg_hasObservedEvidence := True,
                        agg_observedSessionCount := agg_observedSessionCount s2 + 1\<rparr>
                else s2);
          s4 = (case duration_minutes a of
                  None \<Rightarrow> s3
                | Some d \<Rightarrow> if d \<noteq> 0 then s3\<lparr>agg_totalDuration := agg_totalDuration s3 + d\<rparr>
                            else s3)
      in if has_cycles a then s4\<lparr>agg_hasErrorCorrectionCycles := True\<rparr> else s4)"

definition calculateEvidenceMetrics :: "activity list \<Rightarrow> EvidenceMetrics" where
  "calculateEvidenceMetrics activities =
     (let s = foldl agg_step agg_init activities
      in \<lparr>uniqueDays = length (uniqueDates s),
          sessionCount = length activities,
          hasObservedEvidence = agg_hasObservedEvidence s,
          observedSessionCount = agg_observedSessionCount s,
          hasErrorCorrectionCycles = agg_hasErrorCorrectionCycles s,
          activityTypes = agg_activityTypes s\<rparr>)"

definition calculateEvidenceMetrics_client :: "activity list \<Rightarrow> EvidenceMetrics_client" where
  "calculateEvidenceMetrics_client activities =
     (let s = foldl agg_step_client agg_init activities
      in \<lparr>uniqueDays = length (uniqueDates s),
          sessionCount = length activities,
          hasObservedEvidence = agg_hasObservedEvidence s,
          observedSessionCount = agg_observedSessionCount s,
          hasErrorCorrectionCycles = agg_hasErrorCorrectionCycles s,
          activityTypes = agg_activityTypes s,
          totalDuration = agg_totalDuration s\<rparr>)"

section \<open>Unlock rule evaluator\<close>

definition evaluateUnlockRequirements :: "EvidenceMetrics \<Rightarrow> UnlockRequirements" where
  "evaluateUnlockRequirements metrics =
     \<lparr>multiple_days = (uniqueDays metrics \<ge> MIN_UNIQUE_DAYS),
      multiple_sessions = (sessionCount metrics \<ge> MIN_SESSIONS),
      observed_evidence = hasObservedEvidence metrics,
      growth_signal = (hasErrorCorrectionCycles metrics \<or> observedSessionCount metrics \<ge> 2),
      consistency = (length (activityTypes metrics) \<ge> 1 \<and> sessionCount metrics \<ge> MIN_SESSIONS)\<rparr>"

definition evaluateUnlockRequirements_client :: "EvidenceMetrics_client \<Rightarrow> UnlockRequirements" where
  "evaluateUnlockRequirements_client metrics =
     \<lparr>multiple_days = (uniqueDays metrics \<ge> MIN_UNIQUE_DAYS),
      multiple_sessions = (sessionCount metrics \<ge> MIN_SESSIONS),
      observed_evidence = hasObservedEvidence metrics,
      growth_signal = (hasErrorCorrectionCycles metrics \<or> observedSessionCount metrics \<ge> 2),
      consistency = (length (activityTypes metrics) \<ge> 1 \<and> sessionCount metrics \<ge> MIN_SESSIONS)\<rparr>"

definition shouldUnlock :: "UnlockRequirements \<Rightarrow> bool" where
  "shouldUnlock requirements =
     (multiple_days requirements \<and> multiple_sessions requirements \<and>
      observed_evidence requirements \<and> growth_signal requirements \<and>
      consistency requirements)"

definition shouldUnlock_client :: "UnlockRequirements \<Rightarrow> bool" where
  "shouldUnlock_client requirements =
     (multiple_days requirements \<and> multiple_sessions requirements \<and>
      observed_evidence requirements \<and> growth_signal requirements \<and>
      consistency requirements)"

section \<open>Confidence scorer\<close>

definition calculateConfidenceScore :: "EvidenceMetrics \<Rightarrow> real" where
  "calculateConfidenceScore metrics =
     (let score = js_lit 0.2;
          score = js_add score (min (js_div (js_count (uniqueDays metrics)) 10) (js_lit 0.15));
          score = js_add score (min (js_div (js_count (sessionCount metrics)) 20) (js_lit 0.1));
          score = js_add score (min (js_div (js_count (observedSessionCount metrics)) 5) (js_lit 0.1));
          score = (if hasErrorCorrectionCycles metrics then js_add score (js_lit 0.05) else score)
      in min score (js_lit 0.6))"

definition calculateConfidenceScore_client :: "EvidenceMetrics_client \<Rightarrow> real" where
  "calculateConfidenceScore_client metrics =
     (let score = js_lit 0.2;
          score = js_add score (min (js_div (js_count (uniqueDays metrics)) 10) (js_lit 0.15));
          score = js_add score (min (js_div (js_count (sessionCount metrics)) 20) (js_lit 0.1));
          score = js_add score (min (js_div (js_count (observedSessionCount metrics)) 5) (js_lit 0.1));
          score = (if hasErrorCorrectionCycles metrics then js_add score (js_lit 0.05) else score)
      in min score (js_lit 0.6))"

definition getConfidenceLevel :: "real \<Rightarrow> string" where
  "getConfidenceLevel score =
     (if score < js_lit 0.3 then ''emerging''
      else if score < js_lit 0.45 then ''developing''
      else ''early_evidence'')"

text \<open>
  The formula as the specification writes it, as arithmetic on real numbers: every decimal
  and every quotient is exact, nothing is rounded.
\<close>

definition confidence_formula_spec :: "EvidenceMetrics \<Rightarrow> real" where
  "confidence_formula_spec m =
     min (0.2 + min (real (uniqueDays m) / 10) 0.15 + min (real (sessionCount m) / 20) 0.1 +
          min (real (observedSessionCount m) / 5) 0.1 +
          (if hasErrorCorrectionCycles m then 0.05 else 0))
         0.6"

section \<open>Missing-requirement messages\<close>

text \<open>
  A count inside a template literal is printed in decimal (counts stay far below
  \<open>10^21\<close>, where JavaScript switches to exponent notation).
\<close>

definition digit_char :: "nat \<Rightarrow> char" where
  "digit_char d = ''0123456789'' ! d"

function string_of_count :: "nat \<Rightarrow> string" where
  "string_of_count n =
     (if n < 10 then [digit_char n] else string_of_count (n div 10) @ [digit_char (n mod 10)])"
  by pat_completeness auto
termination
  by (relation "measure (\<lambda>n. n)") auto

declare string_of_count.simps [simp del]

definition days_message :: "nat \<Rightarrow> string" where
  "days_message n = ''Evidence spans only '' @ string_of_count n @ '' day(s). Need at least '' @
     string_of_count MIN_UNIQUE_DAYS @ '' distinct days.''"

definition sessions_message :: "nat \<Rightarrow> string" where
  "sessions_message n = ''Only '' @ string_of_count n @ '' session(s) recorded. Need at least '' @
     string_of_count MIN_SESSIONS @ '' sessions.''"

definition observed_message :: string where
  "observed_message =
     ''No observed learning process evidence. Use a Learning Space to generate process signals.''"

definition growth_message :: string where
  "growth_message =
     ''No clear growth signal detected. Continue practicing to demonstrate improvement over time.''"

definition consistency_message :: string where
  "consistency_message = ''Insufficient consistent practice detected across sessions.''"

definition getMissingRequirements :: "UnlockRequirements \<Rightarrow> EvidenceMetrics \<Rightarrow> string list" where
  "getMissingRequirements requirements metrics =
     (let missing = [];
          missing = (if \<not> multiple_days requirements
                     then missing @ [days_message (uniqueDays metrics)] else missing);
          missing = (if \<not> multiple_sessions requirements
                     then missing @ [sessions_message (sessionCount metrics)] else missing);
          missing = (if \<not> observed_evidence requirements
                     then missing @ [observed_message] else missing);
          missing = (if \<not> growth_signal requirements
                     then missing @ [growth_message] else missing);
          missing = (if \<not> consistency requirements
                     then missing @ [consistency_message] else missing)
      in missing)"

definition getMissingRequirements_client ::
  "UnlockRequirements \<Rightarrow> EvidenceMetrics_client \<Rightarrow> string list" where
  "getMissingRequirements_client requirements metrics =
     (let missing = [];
          missing = (if \<not> multiple_days requirements
                     then missing @ [days_message (uniqueDays metrics)] else missing);
          missing = (if \<not> multiple_sessions requirements
                     then missing @ [sessions_message (sessionCount metrics)] else missing);
          missing = (if \<not> observed_evidence requirements
                     then missing @ [observed_message] else missing);
          missing = (if \<not> growth_signal requirements
                     then missing @ [growth_message] else missing);
          missing = (if \<not> consistency requirements
                     then missing @ [consistency_message] else missing)
      in missing)"

text \<open>Whether a message mentions a number at all, and whether it contains a given text.\<close>

definition is_digit :: "char \<Rightarrow> bool" where
  "is_digit c = (c \<in> set ''0123456789'')"

definition has_digit :: "string \<Rightarrow> bool" where
  "has_digit s = list_ex is_digit s"

fun is_prefix :: "string \<Rightarrow> string \<Rightarrow> bool" where
  "is_prefix [] ys = True"
| "is_prefix (x # xs) [] = False"
| "is_prefix (x # xs) (y # ys) = (x = y \<and> is_prefix xs ys)"

fun contains :: "string \<Rightarrow> string \<Rightarrow> bool" where
  "contains [] p = (p = [])"
| "contains (c # cs) p = (is_prefix p (c # cs) \<or> contains cs p)"

section \<open>The handler of \<open>generate_proof_card\<close> requests\<close>

text \<open>
  The values the explanatory-text collaborator can send back are JSON values. A number is
  kept as the text JavaScript prints for it, which is all the handler can observe of it.
\<close>

datatype json =
    JNull
  | JBool bool
  | JNum string
  | JStr string
  | JArr "json list"
  | JObj "(string \<times> json) list"

text \<open>Truthiness, as \<open>||\<close> tests it.\<close>

fun truthy :: "json \<Rightarrow> bool" where
  "truthy JNull = False"
| "truthy (JBool b) = b"
| "truthy (JNum n) = (n \<noteq> ''0'')"
| "truthy (JStr s) = (s \<noteq> [])"
| "truthy (JArr xs) = True"
| "truthy (JObj kvs) = True"

text \<open>
  Reading one of the properties \<open>evidence_summary\<close>, \<open>limitations\<close> or
  \<open>observed_growth_trends\<close>: an object may have it, any other value but \<open>null\<close> has not
  (\<open>None\<close> is \<open>undefined\<close>), and reading a property of \<open>null\<close> throws a TypeError.
\<close>

fun get_prop :: "json \<Rightarrow> string \<Rightarrow> json option" where
  "get_prop (JObj kvs) k = map_of kvs k"
| "get_prop v k = None"

text \<open>\<open>v || d\<close> for a property that was read.\<close>

definition or_default :: "json option \<Rightarrow> json \<Rightarrow> json" where
  "or_default v d = (case v of None \<Rightarrow> d | Some x \<Rightarrow> if truthy x then x else d)"

text \<open>The text a template literal inserts for a value.\<close>

fun join_comma :: "string list \<Rightarrow> string" where
  "join_comma [] = []"
| "join_comma [s] = s"
| "join_comma (s # t # ss) = s @ '','' @ join_comma (t # ss)"

fun js_to_string :: "json \<Rightarrow> string" where
  "js_to_string JNull = ''null''"
| "js_to_string (JBool b) = (if b then ''true'' else ''false'')"
| "js_to_string (JNum n) = n"
| "js_to_string (JStr s) = s"
| "js_to_string (JArr xs) =
     join_comma (map (\<lambda>x. if x = JNull then [] else js_to_string x) xs)"
| "js_to_string (JObj kvs) = ''[object Object]''"

text \<open>
  What one call of the collaborator comes to, by the point at which the handler's control
  flow depends on it: \<open>fetch\<close> rejects; the response is not \<open>ok\<close>; reading the body
  (\<open>response.json()\<close> and the \<open>choices\<close> of its result) throws; \<open>JSON.parse\<close> of the message
  content throws (so does a missing content); or \<open>JSON.parse\<close> returns a value.
\<close>

datatype ai_reply =
    FetchRejects
  | NotOk
  | BodyRejects
  | ContentUnparseable
  | ContentParsed json

text \<open>What the handler sends to the collaborator.\<close>

record activity_sample =
  sample_title :: "string option"
  sample_type :: "string option"
  sample_date :: "js_string option"
  sample_evidence_source :: "string option"
  has_signals :: bool

record ai_prompt =
  authorization :: string
  prompt_skill_name :: string
  prompt_category :: string
  prompt_sessions :: nat
  prompt_unique_days :: nat
  prompt_observed_sessions :: nat
  prompt_has_error_correction :: bool
  prompt_activities :: "activity_sample list"

record request_content =
  skill_name :: string
  category :: string
  activities :: "activity list option"

record current_progress =
  days_count :: nat
  sessions_count :: nat
  has_observed_evidence :: bool

record locked_payload =
  locked_requirements_met :: UnlockRequirements
  missing_requirements :: "string list"
  current_progress :: current_progress
  what_would_unlock :: string
  encouragement :: string

record unlocked_payload =
  requirements_met :: UnlockRequirements
  evidence_summary :: json
  growth_trend :: string
  confidence_score :: real
  confidence_level :: string
  explanation :: string
  time_span :: js_string
  session_count :: nat
  observed_growth_trends :: json
  limitations :: json

text \<open>Every exception reaches the handler's \<open>catch\<close>, which answers with status 500.\<close>

datatype error =
    KeyNotConfigured
  | FetchFailed
  | BodyUnreadable
  | NullProperty

datatype response =
    Locked locked_payload
  | Unlocked unlocked_payload
  | ServerError error

text \<open>
  \<open>activities.map(a => a.date?.split('T')[0]).filter(Boolean).sort()\<close>: the default sort
  orders strings by their UTF-16 code units.
\<close>

definition sorted_dates :: "activity list \<Rightarrow> js_string list" where
  "sorted_dates activity_list =
     sort (map the (filter truthy_str (map dateStr activity_list)))"

definition timeSpan :: "activity list \<Rightarrow> js_string" where
  "timeSpan activity_list =
     (let dates = sorted_dates activity_list
      in if length dates > 1 then dates ! 0 @ utf16 '' to '' @ dates ! (length dates - 1)
         else (case dates of [] \<Rightarrow> utf16 ''Recent'' | d # ds \<Rightarrow> d))"

definition make_prompt :: "string \<Rightarrow> request_content \<Rightarrow> EvidenceMetrics \<Rightarrow> activity list \<Rightarrow> ai_prompt" where
  "make_prompt key content metrics activity_list =
     \<lparr>authorization = ''Bearer '' @ key,
      prompt_skill_name = skill_name content,
      prompt_category = category content,
      prompt_sessions = sessionCount metrics,
      prompt_unique_days = uniqueDays metrics,
      prompt_observed_sessions = observedSessionCount metrics,
      prompt_has_error_correction = hasErrorCorrectionCycles metrics,
      prompt_activities =
        map (\<lambda>a. \<lparr>sample_title = title a, sample_type = type a, sample_date = date a,
                   sample_evidence_source = evidence_source a,
                   has_signals = (learning_signals a \<noteq> None)\<rparr>)
            (take 10 activity_list)\<rparr>"

definition growth_trend_of :: "EvidenceMetrics \<Rightarrow> string" where
  "growth_trend_of metrics = (if hasErrorCorrectionCycles metrics then ''improving'' else ''stable'')"

text \<open>The response when the collaborator's answer is not \<open>ok\<close>.\<close>

definition fallbackResponse :: "request_content \<Rightarrow> EvidenceMetrics \<Rightarrow> UnlockRequirements \<Rightarrow>
    real \<Rightarrow> string \<Rightarrow> js_string \<Rightarrow> unlocked_payload" where
  "fallbackResponse content metrics requirements confidenceScore confidenceLevel spanText =
     \<lparr>requirements_met = requirements,
      evidence_summary = JStr (''Observed '' @ string_of_count (sessionCount metrics) @
        '' learning sessions for '' @ skill_name content @ '' across '' @
        string_of_count (uniqueDays metrics) @ '' days with process evidence.''),
      growth_trend = growth_trend_of metrics,
      confidence_score = confidenceScore,
      confidence_level = confidenceLevel,
      explanation = ''Evidence is '' @ confidenceLevel @ ''. Based on '' @
        string_of_count (observedSessionCount metrics) @ '' observed sessions with process signals.'',
      time_span = spanText,
      session_count = sessionCount metrics,
      observed_growth_trends =
        JArr [JStr ''Learning process observed'', JStr ''Consistent practice detected''],
      limitations =
        JStr ''Early evidence. Confidence will increase with continued practice over time.''\<rparr>"

text \<open>
  The response built from the parsed content \<open>aiParsed\<close>; its first property read throws
  when \<open>aiParsed\<close> is \<open>null\<close>.
\<close>

definition unlockedResponse :: "json \<Rightarrow> request_content \<Rightarrow> EvidenceMetrics \<Rightarrow>
    UnlockRequirements \<Rightarrow> real \<Rightarrow> string \<Rightarrow> js_string \<Rightarrow> response" where
  "unlockedResponse aiParsed content metrics requirements confidenceScore confidenceLevel spanText =
     (if aiParsed = JNull then ServerError NullProperty
      else Unlocked
        \<lparr>requirements_met = requirements,
         evidence_summary = or_default (get_prop aiParsed ''evidence_summary'')
           (JStr (''Observed '' @ string_of_count (sessionCount metrics) @
             '' learning sessions for '' @ skill_name content @ '' across '' @
             string_of_count (uniqueDays metrics) @ '' days.'')),
         growth_trend = growth_trend_of metrics,
         confidence_score = confidenceScore,
         confidence_level = confidenceLevel,
         explanation = ''Confidence is '' @ confidenceLevel @ '' based on '' @
           string_of_count (observedSessionCount metrics) @ '' observed sessions across '' @
           string_of_count (uniqueDays metrics) @ '' days. '' @
           js_to_string (or_default (get_prop aiParsed ''limitations'') (JStr [])),
         time_span = spanText,
         session_count = sessionCount metrics,
         observed_growth_trends = or_default (get_prop aiParsed ''observed_growth_trends'')
           (JArr [JStr ''Learning process observed'']),
         limitations = or_default (get_prop aiParsed ''limitations'')
           (JStr ''Early evidence. Confidence will increase with continued practice.'')\<rparr>)"

definition lockedResponse :: "EvidenceMetrics \<Rightarrow> UnlockRequirements \<Rightarrow> locked_payload" where
  "lockedResponse metrics requirements =
     \<lparr>locked_requirements_met = requirements,
      missing_requirements = getMissingRequirements requirements metrics,
      current_progress = \<lparr>days_count = uniqueDays metrics, sessions_count = sessionCount metrics,
        has_observed_evidence = hasObservedEvidence metrics\<rparr>,
      what_would_unlock = ''Continue practicing this skill over multiple days with observed learning sessions. Use the Code or Writing Learning Spaces to generate process evidence.'',
      encouragement = ''Your learning is being tracked. Proof Cards require sustained evidence over time'' @
        [CHR 0xE2, CHR 0x80, CHR 0x94] @ ''slowness is a feature, not a bug. Keep practicing!''\<rparr>"

text \<open>\<open>content.activities || []\<close>.\<close>

definition activities_or_empty :: "request_content \<Rightarrow> activity list" where
  "activities_or_empty content = (case activities content of None \<Rightarrow> [] | Some l \<Rightarrow> l)"

text \<open>
  The handler on a request of type \<open>generate_proof_card\<close>, given the environment's
  \<open>LOVABLE_API_KEY\<close>, the request's \<open>content\<close> and the collaborator. It returns the response
  and the calls made to the collaborator, in order. The request body is taken as parsed and
  as carrying a \<open>content\<close> object; the branches for the other request types are not part of
  this function. The key is tested before the request type is looked at, as in the source.
\<close>

definition serve_generate_proof_card ::
  "string option \<Rightarrow> request_content \<Rightarrow> (ai_prompt \<Rightarrow> ai_reply) \<Rightarrow> response \<times> ai_prompt list" where
  "serve_generate_proof_card LOVABLE_API_KEY content collaborator =
     (if \<not> truthy_str LOVABLE_API_KEY then (ServerError KeyNotConfigured, [])
      else
        let activity_list = activities_or_empty content;
            metrics = calculateEvidenceMetrics activity_list;
            requirements = evaluateUnlockRequirements metrics;
            canUnlock = shouldUnlock requirements
        in if \<not> canUnlock then (Locked (lockedResponse metrics requirements), [])
           else
             let confidenceScore = calculateConfidenceScore metrics;
                 confidenceLevel = getConfidenceLevel confidenceScore;
                 spanText = timeSpan activity_list;
                 prompt = make_prompt (the LOVABLE_API_KEY) content metrics activity_list
             in (case collaborator prompt of
                   FetchRejects \<Rightarrow> ServerError FetchFailed
                 | NotOk \<Rightarrow> Unlocked (fallbackResponse content metrics requirements
                              confidenceScore confidenceLevel spanText)
                 | BodyRejects \<Rightarrow> ServerError BodyUnreadable
                 | ContentUnparseable \<Rightarrow> unlockedResponse (JObj []) content metrics requirements
                              confidenceScore confidenceLevel spanText
                 | ContentParsed aiParsed \<Rightarrow> unlockedResponse aiParsed content metrics
                              requirements confidenceScore confidenceLevel spanText,
                 [prompt]))"

text \<open>
  The day strings of the activities, as the handler collects them: the non-empty texts
  before the first \<open>T\<close> of each date.
\<close>

definition day_strings :: "activity list \<Rightarrow> js_string list" where
  "day_strings activity_list = map the (filter truthy_str (map dateStr activity_list))"

subsection \<open>The time span of the specification\<close>

text \<open>
  The specification speaks of dates: the least and the greatest activity date as a range,
  the single date when there is one distinct day, \<open>Recent\<close> when no date can be parsed. A
  date is an ISO 8601 text; it is parseable when it starts with a calendar day
  \<open>YYYY-MM-DD\<close> that is followed by nothing or by \<open>T\<close>. Days are compared as dates (year,
  then month, then day) and printed as \<open>YYYY-MM-DD\<close>.
\<close>

type_synonym day = "nat \<times> nat \<times> nat"

definition is_digit_unit :: "code_unit \<Rightarrow> bool" where
  "is_digit_unit c = (code_unit_of CHR ''0'' \<le> c \<and> c \<le> code_unit_of CHR ''9'')"

definition digit_val :: "code_unit \<Rightarrow> nat" where
  "digit_val c = unat c - unat (code_unit_of CHR ''0'')"

definition digit_unit :: "nat \<Rightarrow> code_unit" where
  "digit_unit n = of_nat (unat (code_unit_of CHR ''0'') + n)"

fun parse_date :: "js_string \<Rightarrow> day option" where
  "parse_date (y1 # y2 # y3 # y4 # h1 # m1 # m2 # h2 # d1 # d2 # rest) =
     (if is_digit_unit y1 \<and> is_digit_unit y2 \<and> is_digit_unit y3 \<and> is_digit_unit y4 \<and>
         h1 = code_unit_of CHR ''-'' \<and> is_digit_unit m1 \<and> is_digit_unit m2 \<and>
         h2 = code_unit_of CHR ''-'' \<and> is_digit_unit d1 \<and> is_digit_unit d2 \<and>
         (rest = [] \<or> hd rest = code_unit_of CHR ''T'')
      then
        (let y = 1000 * digit_val y1 + 100 * digit_val y2 + 10 * digit_val y3 + digit_val y4;
             m = 10 * digit_val m1 + digit_val m2;
             d = 10 * digit_val d1 + digit_val d2
         in if 1 \<le> m \<and> m \<le> 12 \<and> 1 \<le> d \<and> d \<le> 31 then Some (y, m, d) else None)
      else None)"
| "parse_date s = None"

fun format_day :: "day \<Rightarrow> js_string" where
  "format_day (y, m, d) =
     [digit_unit (y div 1000), digit_unit (y div 100 mod 10), digit_unit (y div 10 mod 10),
      digit_unit (y mod 10), code_unit_of CHR ''-'',
      digit_unit (m div 10), digit_unit (m mod 10), code_unit_of CHR ''-'',
      digit_unit (d div 10), digit_unit (d mod 10)]"

definition parsed_days :: "activity list \<Rightarrow> day list" where
  "parsed_days activity_list =
     List.map_filter (\<lambda>a. case date a of None \<Rightarrow> None | Some s \<Rightarrow> parse_date s) activity_list"

definition time_span_spec :: "activity list \<Rightarrow> js_string" where
  "time_span_spec activity_list =
     (case remdups (parsed_days activity_list) of
        [] \<Rightarrow> utf16 ''Recent''
      | [d] \<Rightarrow> format_day d
      | d # ds \<Rightarrow> format_day (fold min ds d) @ utf16 '' to '' @ format_day (fold max ds d))"

text \<open>Every date that contributes a day string can be parsed.\<close>

definition dates_parseable :: "activity list \<Rightarrow> bool" where
  "dates_parseable activity_list =
     list_all (\<lambda>a. case date a of
                     None \<Rightarrow> True
                   | Some s \<Rightarrow> split_T_first s = [] \<or> parse_date s \<noteq> None) activity_list"

section \<open>Example inputs\<close>

text \<open>Three sessions on three days, two observed, no error-correction cycle.\<close>

definition three_observed_days :: "activity list" where
  "three_observed_days =
     [\<lparr>title = Some ''a'', type = Some ''code'', date = Some (utf16 ''2024-01-01T10:00:00Z''),
        created_at = None, evidence_source = Some ''observed_in_proof'',
        learning_signals = None, duration_minutes = None\<rparr>,
      \<lparr>title = Some ''b'', type = Some ''code'', date = Some (utf16 ''2024-01-02T10:00:00Z''),
        created_at = None, evidence_source = Some ''observed_in_proof'',
        learning_signals = None, duration_minutes = None\<rparr>,
      \<lparr>title = Some ''c'', type = Some ''code'', date = Some (utf16 ''2024-01-03T10:00:00Z''),
        created_at = None, evidence_source = Some ''submitted'',
        learning_signals = None, duration_minutes = None\<rparr>]"

text \<open>Three rows as the storage holds them: \<open>created_at\<close> and no \<open>date\<close>.\<close>

definition stored_rows :: "activity list" where
  "stored_rows =
     [\<lparr>title = Some ''a'', type = Some ''code'', date = None,
        created_at = Some (utf16 ''2024-01-01T10:00:00Z''), evidence_source = Some ''observed_in_proof'',
        learning_signals = None, duration_minutes = None\<rparr>,
      \<lparr>title = Some ''b'', type = Some ''code'', date = None,
        created_at = Some (utf16 ''2024-01-02T10:00:00Z''), evidence_source = Some ''observed_in_proof'',
        learning_signals = None, duration_minutes = None\<rparr>,
      \<lparr>title = Some ''c'', type = Some ''code'', date = None,
        created_at = Some (utf16 ''2024-01-03T10:00:00Z''), evidence_source = Some ''submitted'',
        learning_signals = None, duration_minutes = None\<rparr>]"

text \<open>Requirements with only the observed evidence missing, and metrics to go with them.\<close>

definition only_observed_missing :: UnlockRequirements where
  "only_observed_missing = \<lparr>multiple_days = True, multiple_sessions = True,
     observed_evidence = False, growth_signal = True, consistency = True\<rparr>"

definition some_metrics :: EvidenceMetrics where
  "some_metrics = \<lparr>uniqueDays = 4, sessionCount = 5, hasObservedEvidence = False,
     observedSessionCount = 0, hasErrorCorrectionCycles = True, activityTypes = [''code'']\<rparr>"

text \<open>
  A request for the three observed days, an empty request, and collaborators: one that
  answers with a failure status, one whose \<open>fetch\<close> rejects, one whose content is the JSON
  text \<open>null\<close>, one whose content does not parse, one whose response body cannot be read.
\<close>

definition unlockable_request :: request_content where
  "unlockable_request =
     \<lparr>skill_name = ''Python'', category = ''Programming'', activities = Some three_observed_days\<rparr>"

definition empty_request :: request_content where
  "empty_request = \<lparr>skill_name = ''Python'', category = ''Programming'', activities = Some []\<rparr>"

definition failing_collaborator :: "ai_prompt \<Rightarrow> ai_reply" where
  "failing_collaborator prompt = NotOk"

definition rejecting_collaborator :: "ai_prompt \<Rightarrow> ai_reply" where
  "rejecting_collaborator prompt = FetchRejects"

definition null_collaborator :: "ai_prompt \<Rightarrow> ai_reply" where
  "null_collaborator prompt = ContentParsed JNull"

definition unparseable_collaborator :: "ai_prompt \<Rightarrow> ai_reply" where
  "unparseable_collaborator prompt = ContentUnparseable"

definition unreadable_body_collaborator :: "ai_prompt \<Rightarrow> ai_reply" where
  "unreadable_body_collaborator prompt = BodyRejects"

text \<open>Metrics with one day, one session, one observed session and an error-correction cycle.\<close>

definition one_of_each :: EvidenceMetrics where
  "one_of_each = \<lparr>uniqueDays = 1, sessionCount = 1, hasObservedEvidence = True,
     observedSessionCount = 1, hasErrorCorrectionCycles = True, activityTypes = [''code'']\<rparr>"

text \<open>Three sessions whose dates are no dates, and a request for them.\<close>

definition odd_dates :: "activity list" where
  "odd_dates =
     [\<lparr>title = Some ''a'', type = Some ''code'', date = Some (utf16 ''foo''),
        created_at = None, evidence_source = Some ''observed_in_proof'',
        learning_signals = None, duration_minutes = None\<rparr>,
      \<lparr>title = Some ''b'', type = Some ''code'', date = Some (utf16 ''bar''),
        created_at = None, evidence_source = Some ''observed_in_proof'',
        learning_signals = None, duration_minutes = None\<rparr>,
      \<lparr>title = Some ''c'', type = Some ''code'', date = Some (utf16 ''baz''),
        created_at = None, evidence_source = Some ''submitted'',
        learning_signals = None, duration_minutes = None\<rparr>]"

definition odd_request :: request_content where
  "odd_request =
     \<lparr>skill_name = ''Python'', category = ''Programming'', activities = Some odd_dates\<rparr>"

text \<open>Two sessions on one day.\<close>

definition same_day_twice :: "activity list" where
  "same_day_twice =
     [\<lparr>title = Some ''a'', type = Some ''code'', date = Some (utf16 ''2024-01-01T10:00:00Z''),
        created_at = None, evidence_source = None, learning_signals = None,
        duration_minutes = None\<rparr>,
      \<lparr>title = Some ''b'', type = Some ''code'', date = Some (utf16 ''2024-01-01T18:30:00Z''),
        created_at = None, evidence_source = None, learning_signals = None,
        duration_minutes = None\<rparr>]"

section \<open>Properties of rounding\<close>

lemma ilog2_up_bounds: "1 \<le> x \<Longrightarrow> 2 ^ ilog2_up x \<le> x \<and> x < 2 ^ Suc (ilog2_up x)"
proof (induction x rule: ilog2_up.induct)
  case (1 x)
  show ?case
  proof (cases "2 \<le> x")
    case True
    then have "1 \<le> x / 2" by simp
    with 1 True have "2 ^ ilog2_up (x / 2) \<le> x / 2 \<and> x / 2 < 2 ^ Suc (ilog2_up (x / 2))"
      by blast
    moreover have "ilog2_up x = Suc (ilog2_up (x / 2))"
      using True by (subst ilog2_up.simps) simp
    ultimately show ?thesis by simp
  next
    case False
    then have "ilog2_up x = 0" by (subst ilog2_up.simps) simp
    with False 1 show ?thesis by simp
  qed
qed

lemma ilog2_down_bounds:
  "0 < x \<Longrightarrow> x < 1 \<Longrightarrow> 1 \<le> x * 2 ^ ilog2_down x \<and> x * 2 ^ ilog2_down x < 2"
proof (induction x rule: ilog2_down.induct)
  case (1 x)
  have e: "ilog2_down x = Suc (ilog2_down (2 * x))"
    using 1(2,3) by (subst ilog2_down.simps) simp
  show ?case
  proof (cases "2 * x < 1")
    case True
    with 1 have "1 \<le> (2 * x) * 2 ^ ilog2_down (2 * x) \<and> (2 * x) * 2 ^ ilog2_down (2 * x) < 2"
      by simp
    with e show ?thesis by (simp add: mult.assoc mult.left_commute)
  next
    case False
    then have "ilog2_down (2 * x) = 0" by (subst ilog2_down.simps) simp
    with e False 1 show ?thesis by simp
  qed
qed

lemma ilog2_bounds:
  assumes "0 < x"
  shows "2 powi ilog2 x \<le> x" and "x < 2 powi (ilog2 x + 1)"
proof -
  show "2 powi ilog2 x \<le> x"
  proof (cases "1 \<le> x")
    case True
    then show ?thesis using ilog2_up_bounds [of x] by (simp add: ilog2_def)
  next
    case False
    then have "1 \<le> x * 2 ^ ilog2_down x" using assms ilog2_down_bounds [of x] by simp
    then have "1 / 2 ^ ilog2_down x \<le> x" by (simp add: field_simps)
    then show ?thesis using False by (simp add: ilog2_def power_int_minus field_simps)
  qed
  show "x < 2 powi (ilog2 x + 1)"
  proof (cases "1 \<le> x")
    case True
    then show ?thesis using ilog2_up_bounds [of x]
      by (simp add: ilog2_def power_int_add)
  next
    case False
    then have "x * 2 ^ ilog2_down x < 2" using assms ilog2_down_bounds [of x] by simp
    then have "x < 2 / 2 ^ ilog2_down x" by (simp add: field_simps)
    moreover have "(2::real) powi (1 - int (ilog2_down x)) = 2 / 2 ^ ilog2_down x"
      by (simp add: power_int_diff)
    ultimately show ?thesis using False by (simp add: ilog2_def)
  qed
qed


lemma two_powi_less_cancel:
  assumes "(2::real) powi a < 2 powi b"
  shows "a < b"
proof (rule ccontr)
  assume "\<not> a < b"
  then have "b \<le> a" by simp
  then have "(2::real) powi b \<le> 2 powi a" by (intro power_int_increasing) auto
  with assms show False by simp
qed

lemma ilog2_unique:
  assumes "0 < x" and "2 powi e \<le> x" and "x < 2 powi (e + 1)"
  shows "ilog2 x = e"
proof -
  have "(2::real) powi e < 2 powi (ilog2 x + 1)"
    using assms(2) ilog2_bounds(2) [OF assms(1)] by linarith
  then have "e < ilog2 x + 1" by (rule two_powi_less_cancel)
  moreover have "(2::real) powi ilog2 x < 2 powi (e + 1)"
    using assms(3) ilog2_bounds(1) [OF assms(1)] by linarith
  then have "ilog2 x < e + 1" by (rule two_powi_less_cancel)
  ultimately show ?thesis by simp
qed

lemma round_half_even_of_int: "round_half_even (of_int n) = n"
  by (simp add: round_half_even_def)

lemma round_half_even_lower: "of_int a \<le> x \<Longrightarrow> a \<le> round_half_even x"
proof -
  assume "of_int a \<le> x"
  then have "a \<le> \<lfloor>x\<rfloor>" by (simp add: le_floor_iff)
  then show ?thesis by (simp add: round_half_even_def Let_def)
qed

lemma round_half_even_upper: "x \<le> of_int b \<Longrightarrow> round_half_even x \<le> b"
proof -
  assume h: "x \<le> of_int b"
  show ?thesis
  proof (cases "x = of_int b")
    case True
    then show ?thesis by (simp add: round_half_even_of_int)
  next
    case False
    with h have "x < of_int b" by simp
    then have "\<lfloor>x\<rfloor> < b" by (simp add: floor_less_iff)
    then show ?thesis by (simp add: round_half_even_def Let_def)
  qed
qed

lemma round_half_even_mono: "x \<le> y \<Longrightarrow> round_half_even x \<le> round_half_even y"
proof -
  assume h: "x \<le> y"
  have fl: "\<lfloor>x\<rfloor> \<le> \<lfloor>y\<rfloor>" using h by (rule floor_mono)
  show ?thesis
  proof (cases "\<lfloor>x\<rfloor> = \<lfloor>y\<rfloor>")
    case True
    with h show ?thesis by (auto simp: round_half_even_def Let_def)
  next
    case False
    with fl have "\<lfloor>x\<rfloor> + 1 \<le> \<lfloor>y\<rfloor>" by simp
    moreover have "round_half_even x \<le> \<lfloor>x\<rfloor> + 1" by (simp add: round_half_even_def Let_def)
    moreover have "\<lfloor>y\<rfloor> \<le> round_half_even y" by (simp add: round_half_even_def Let_def)
    ultimately show ?thesis by linarith
  qed
qed


lemma pow2_shift: "(2::real) ^ n * 2 powi (e - int n) = 2 powi e"
proof -
  have "(2::real) powi (int n + (e - int n)) = 2 powi int n * 2 powi (e - int n)"
    by (rule power_int_add) simp
  then show ?thesis by simp
qed

lemma pow2_52: "(2::real) ^ 52 * 2 powi (e - 52) = 2 powi e"
  using pow2_shift [of 52 e] by simp

lemma pow2_53: "(2::real) ^ 53 * 2 powi (e - 52) = 2 powi (e + 1)"
  using pow2_shift [of 53 "e + 1"] by simp

lemma scaled_bounds:
  assumes "0 < x"
  shows "2 ^ 52 \<le> x * 2 powi (52 - ilog2 x)" and "x * 2 powi (52 - ilog2 x) < 2 ^ 53"
proof -
  let ?e = "ilog2 x"
  have p: "(0::real) < 2 powi (52 - ?e)" by simp
  have "2 powi ?e * 2 powi (52 - ?e) \<le> x * 2 powi (52 - ?e)"
    using ilog2_bounds(1) [OF assms] p by (simp only: mult_le_cancel_right_pos)
  moreover have "(2::real) powi ?e * 2 powi (52 - ?e) = 2 ^ 52"
    by (simp flip: power_int_add)
  ultimately show "2 ^ 52 \<le> x * 2 powi (52 - ?e)" by simp
  have "x * 2 powi (52 - ?e) < 2 powi (?e + 1) * 2 powi (52 - ?e)"
    using ilog2_bounds(2) [OF assms] p by (simp only: mult_less_cancel_right_pos)
  moreover have "(2::real) powi (?e + 1) * 2 powi (52 - ?e) = 2 ^ 53"
    by (simp flip: power_int_add)
  ultimately show "x * 2 powi (52 - ?e) < 2 ^ 53" by simp
qed

lemma mantissa_bounds:
  assumes "0 < x"
  shows "2 ^ 52 \<le> round_half_even (x * 2 powi (52 - ilog2 x))"
    and "round_half_even (x * 2 powi (52 - ilog2 x)) \<le> 2 ^ 53"
proof -
  have "of_int (2 ^ 52) \<le> x * 2 powi (52 - ilog2 x)"
    using scaled_bounds(1) [OF assms] by simp
  then show "2 ^ 52 \<le> round_half_even (x * 2 powi (52 - ilog2 x))"
    by (rule round_half_even_lower)
  have "x * 2 powi (52 - ilog2 x) \<le> of_int (2 ^ 53)"
    using scaled_bounds(2) [OF assms] by simp
  then show "round_half_even (x * 2 powi (52 - ilog2 x)) \<le> 2 ^ 53"
    by (rule round_half_even_upper)
qed

lemma round_pos_bounds:
  assumes "0 < x"
  shows "2 powi ilog2 x \<le> round_pos x" and "round_pos x \<le> 2 powi (ilog2 x + 1)"
proof -
  let ?e = "ilog2 x"
  let ?m = "round_half_even (x * 2 powi (52 - ?e))"
  have p: "(0::real) < 2 powi (?e - 52)" by simp
  have r: "round_pos x = of_int ?m * 2 powi (?e - 52)" by (simp add: round_pos_def Let_def)
  have "(2::real) ^ 52 \<le> of_int ?m"
    using mantissa_bounds(1) [OF assms] by (metis of_int_le_iff of_int_numeral of_int_power)
  then have "(2::real) ^ 52 * 2 powi (?e - 52) \<le> of_int ?m * 2 powi (?e - 52)"
    using p by (simp only: mult_le_cancel_right_pos)
  moreover note pow2_52 [of ?e]
  ultimately show "2 powi ?e \<le> round_pos x" using r by linarith
  have "of_int ?m \<le> (2::real) ^ 53"
    using mantissa_bounds(2) [OF assms] by (metis of_int_le_iff of_int_numeral of_int_power)
  then have "of_int ?m * 2 powi (?e - 52) \<le> (2::real) ^ 53 * 2 powi (?e - 52)"
    using p by (simp only: mult_le_cancel_right_pos)
  moreover note pow2_53 [of ?e]
  ultimately show "round_pos x \<le> 2 powi (?e + 1)" using r by linarith
qed

lemma round_pos_pos: "0 < x \<Longrightarrow> 0 < round_pos x"
proof -
  assume h: "0 < x"
  have "(0::real) < 2 powi ilog2 x" by simp
  with round_pos_bounds(1) [OF h] show ?thesis by linarith
qed

lemma ilog2_mono:
  assumes "0 < x" and "x \<le> y"
  shows "ilog2 x \<le> ilog2 y"
proof -
  have "0 < y" using assms by simp
  have "2 powi ilog2 x < (2::real) powi (ilog2 y + 1)"
    using ilog2_bounds(1) [OF assms(1)] ilog2_bounds(2) [OF \<open>0 < y\<close>] assms(2) by linarith
  then have "ilog2 x < ilog2 y + 1" by (rule two_powi_less_cancel)
  then show ?thesis by simp
qed

lemma round_pos_mono:
  assumes "0 < x" and "x \<le> y"
  shows "round_pos x \<le> round_pos y"
proof -
  have y: "0 < y" using assms by simp
  show ?thesis
  proof (cases "ilog2 x = ilog2 y")
    case True
    have p: "(0::real) < 2 powi (52 - ilog2 y)" by simp
    have "x * 2 powi (52 - ilog2 y) \<le> y * 2 powi (52 - ilog2 y)"
      using assms(2) p by (simp only: mult_le_cancel_right_pos)
    then have "round_half_even (x * 2 powi (52 - ilog2 y))
                 \<le> round_half_even (y * 2 powi (52 - ilog2 y))"
      by (rule round_half_even_mono)
    then have "(of_int (round_half_even (x * 2 powi (52 - ilog2 y))) :: real)
                 \<le> of_int (round_half_even (y * 2 powi (52 - ilog2 y)))"
      by simp
    moreover have "(0::real) < 2 powi (ilog2 y - 52)" by simp
    ultimately show ?thesis
      using True by (simp add: round_pos_def Let_def)
  next
    case False
    with ilog2_mono [OF assms] have "ilog2 x + 1 \<le> ilog2 y" by simp
    then have "(2::real) powi (ilog2 x + 1) \<le> 2 powi ilog2 y"
      by (intro power_int_increasing) auto
    with round_pos_bounds(2) [OF assms(1)] round_pos_bounds(1) [OF y]
    show ?thesis by linarith
  qed
qed

lemma round_pos_idem:
  assumes "0 < x"
  shows "round_pos (round_pos x) = round_pos x"
proof -
  let ?e = "ilog2 x"
  let ?m = "round_half_even (x * 2 powi (52 - ?e))"
  let ?r = "round_pos x"
  have r: "?r = of_int ?m * 2 powi (?e - 52)" by (simp add: round_pos_def Let_def)
  have rpos: "0 < ?r" using assms by (rule round_pos_pos)
  show ?thesis
  proof (cases "?m = 2 ^ 53")
    case True
    have "(of_int ?m :: real) = 2 ^ 53" using True by simp
    then have "?r = 2 ^ 53 * 2 powi (?e - 52)" using r by (simp only:)
    then have v: "?r = 2 powi (?e + 1)" by (simp only: pow2_53)
    have "(2::real) powi (?e + 1) < 2 powi (?e + 1 + 1)"
      by (intro power_int_strict_increasing) auto
    then have e': "ilog2 ?r = ?e + 1"
      using v rpos by (intro ilog2_unique) auto
    have "(2::real) powi (?e + 1) * 2 powi (52 - (?e + 1)) = 2 powi 52"
      by (simp flip: power_int_add)
    then have "?r * 2 powi (52 - (?e + 1)) = of_int (2 ^ 52)" using v by simp
    then have "round_half_even (?r * 2 powi (52 - (?e + 1))) = 2 ^ 52"
      by (simp only: round_half_even_of_int)
    then have "round_pos ?r = of_int (2 ^ 52) * 2 powi (?e + 1 - 52)"
      using e' by (simp only: round_pos_def [of ?r] Let_def)
    also have "\<dots> = 2 ^ 52 * 2 powi (?e + 1 - 52)" by simp
    also have "\<dots> = 2 powi (?e + 1)" by (rule pow2_52)
    finally show ?thesis using v by simp
  next
    case False
    with mantissa_bounds(2) [OF assms] have "?m < 2 ^ 53" by simp
    then have "(of_int ?m :: real) < 2 ^ 53"
      by (metis of_int_less_iff of_int_numeral of_int_power)
    moreover have p: "(0::real) < 2 powi (?e - 52)" by simp
    ultimately have "of_int ?m * 2 powi (?e - 52) < (2::real) ^ 53 * 2 powi (?e - 52)"
      by (simp only: mult_less_cancel_right_pos)
    moreover note pow2_53 [of ?e]
    ultimately have "?r < 2 powi (?e + 1)" using r by linarith
    then have e': "ilog2 ?r = ?e"
      using round_pos_bounds(1) [OF assms] rpos by (intro ilog2_unique) auto
    have "?r * 2 powi (52 - ?e) = of_int ?m * (2 powi (?e - 52) * 2 powi (52 - ?e))"
      using r by (simp add: mult.assoc)
    also have "(2::real) powi (?e - 52) * 2 powi (52 - ?e) = 1" by (simp flip: power_int_add)
    finally have "?r * 2 powi (52 - ?e) = of_int ?m" by simp
    then have "round_half_even (?r * 2 powi (52 - ?e)) = ?m"
      by (simp only: round_half_even_of_int)
    then have "round_pos ?r = of_int ?m * 2 powi (?e - 52)"
      using e' by (simp add: round_pos_def [of ?r] Let_def)
    with r show ?thesis by simp
  qed
qed

lemma rnd_zero: "rnd 0 = 0"
  by (simp add: rnd_def)

lemma rnd_nonneg: "0 \<le> x \<Longrightarrow> 0 \<le> rnd x"
  using round_pos_pos [of x] by (auto simp: rnd_def less_eq_real_def)

lemma rnd_mono:
  assumes "x \<le> y"
  shows "rnd x \<le> rnd y"
proof -
  consider "0 < x" | "x = 0" | "x < 0" "y < 0" | "x < 0" "0 \<le> y" by linarith
  then show ?thesis
  proof cases
    case 1
    then show ?thesis using assms round_pos_mono [of x y] by (simp add: rnd_def)
  next
    case 2
    then show ?thesis using assms rnd_nonneg [of y] by (simp add: rnd_zero)
  next
    case 3
    then have "round_pos (- y) \<le> round_pos (- x)" using assms by (intro round_pos_mono) auto
    then show ?thesis using 3 by (simp add: rnd_def)
  next
    case 4
    then have "0 < round_pos (- x)" by (intro round_pos_pos) simp
    then have "rnd x < 0" using 4 by (simp add: rnd_def)
    with rnd_nonneg [OF 4(2)] show ?thesis by linarith
  qed
qed

lemma rnd_idem: "rnd (rnd x) = rnd x"
proof -
  consider "0 < x" | "x = 0" | "x < 0" by linarith
  then show ?thesis
  proof cases
    case 1
    then have "0 < round_pos x" by (rule round_pos_pos)
    then show ?thesis using 1 round_pos_idem [of x] by (simp add: rnd_def)
  next
    case 2
    then show ?thesis by (simp add: rnd_zero)
  next
    case 3
    then have "0 < round_pos (- x)" by (intro round_pos_pos) simp
    then show ?thesis using 3 round_pos_idem [of "- x"] by (simp add: rnd_def)
  qed
qed

section \<open>Arithmetic of the score\<close>

lemma js_add_mono: "a \<le> a' \<Longrightarrow> b \<le> b' \<Longrightarrow> js_add a b \<le> js_add a' b'"
  by (simp add: js_add_def rnd_mono)

lemma js_div_mono: "a \<le> a' \<Longrightarrow> 0 < c \<Longrightarrow> js_div a c \<le> js_div a' c"
  by (simp add: js_div_def rnd_mono divide_right_mono)

lemma js_count_mono: "n \<le> n' \<Longrightarrow> js_count n \<le> js_count n'"
  by (simp add: js_count_def rnd_mono)

lemma js_count_nonneg: "0 \<le> js_count n"
  by (simp add: js_count_def rnd_nonneg)

lemma js_div_nonneg: "0 \<le> a \<Longrightarrow> 0 < c \<Longrightarrow> 0 \<le> js_div a c"
  by (simp add: js_div_def rnd_nonneg)

lemma js_lit_nonneg: "0 \<le> q \<Longrightarrow> 0 \<le> js_lit q"
  by (simp add: js_lit_def rnd_nonneg)

lemma js_add_rnd_ge: "0 \<le> b \<Longrightarrow> rnd z \<le> js_add (rnd z) b"
proof -
  assume "0 \<le> b"
  then have "rnd (rnd z) \<le> rnd (rnd z + b)" by (intro rnd_mono) simp
  then show ?thesis by (simp add: js_add_def rnd_idem)
qed

lemma term_bounds:
  "0 \<le> min (js_div (js_count n) 10) (js_lit 0.15)"
  "0 \<le> min (js_div (js_count n) 20) (js_lit 0.1)"
  "0 \<le> min (js_div (js_count n) 5) (js_lit 0.1)"
  by (simp_all add: js_div_nonneg js_count_nonneg js_lit_nonneg)

lemma chain_lower:
  assumes "0 \<le> t1" "0 \<le> t2" "0 \<le> t3" "0 \<le> t4" "rnd q \<le> e"
  shows "rnd q \<le> min (if c then js_add (js_add (js_add (js_add (rnd q) t1) t2) t3) t4
                       else js_add (js_add (js_add (rnd q) t1) t2) t3) e"
proof -
  let ?s1 = "js_add (rnd q) t1"
  let ?s2 = "js_add ?s1 t2"
  let ?s3 = "js_add ?s2 t3"
  have a1: "rnd q \<le> ?s1" using assms(1) by (rule js_add_rnd_ge)
  have a2: "?s1 \<le> ?s2" unfolding js_add_def [of "rnd q"] using assms(2) by (rule js_add_rnd_ge)
  have a3: "?s2 \<le> ?s3" unfolding js_add_def [of ?s1] using assms(3) by (rule js_add_rnd_ge)
  have a4: "?s3 \<le> js_add ?s3 t4"
    unfolding js_add_def [of ?s2] using assms(4) by (rule js_add_rnd_ge)
  have "rnd q \<le> ?s3" using a1 a2 a3 by linarith
  moreover have "rnd q \<le> js_add ?s3 t4" using a1 a2 a3 a4 by linarith
  ultimately show ?thesis using assms(5) by (cases c) simp_all
qed

lemma chain_mono:
  assumes "t1 \<le> u1" "t2 \<le> u2" "t3 \<le> u3"
  shows "min (if c then js_add (js_add (js_add (js_add a t1) t2) t3) d
              else js_add (js_add (js_add a t1) t2) t3) e
         \<le> min (if c then js_add (js_add (js_add (js_add a u1) u2) u3) d
                 else js_add (js_add (js_add a u1) u2) u3) e"
proof -
  have s3: "js_add (js_add (js_add a t1) t2) t3 \<le> js_add (js_add (js_add a u1) u2) u3"
    by (intro js_add_mono assms order_refl)
  have "js_add (js_add (js_add (js_add a t1) t2) t3) d
          \<le> js_add (js_add (js_add (js_add a u1) u2) u3) d"
    by (intro js_add_mono s3 order_refl)
  with s3 show ?thesis by (cases c) (simp_all add: min.coboundedI1)
qed

lemma score_lower: "js_lit 0.2 \<le> calculateConfidenceScore m"
proof -
  have "rnd 0.2 \<le> js_lit (0.6::real)"
    unfolding js_lit_def by (rule rnd_mono) simp
  then show ?thesis
    unfolding calculateConfidenceScore_def Let_def js_lit_def [of "0.2"]
    by (intro chain_lower term_bounds js_lit_nonneg) simp_all
qed

lemma score_upper: "calculateConfidenceScore m \<le> js_lit 0.6"
  by (simp add: calculateConfidenceScore_def Let_def)

lemma score_mono:
  assumes "uniqueDays m \<le> uniqueDays m'" "sessionCount m \<le> sessionCount m'"
    "observedSessionCount m \<le> observedSessionCount m'"
    "hasErrorCorrectionCycles m = hasErrorCorrectionCycles m'"
  shows "calculateConfidenceScore m \<le> calculateConfidenceScore m'"
proof -
  have t1: "min (js_div (js_count (uniqueDays m)) 10) (js_lit 0.15)
            \<le> min (js_div (js_count (uniqueDays m')) 10) (js_lit 0.15)"
    using assms(1) by (intro min.mono js_div_mono js_count_mono) auto
  have t2: "min (js_div (js_count (sessionCount m)) 20) (js_lit 0.1)
            \<le> min (js_div (js_count (sessionCount m')) 20) (js_lit 0.1)"
    using assms(2) by (intro min.mono js_div_mono js_count_mono) auto
  have t3: "min (js_div (js_count (observedSessionCount m)) 5) (js_lit 0.1)
            \<le> min (js_div (js_count (observedSessionCount m')) 5) (js_lit 0.1)"
    using assms(3) by (intro min.mono js_div_mono js_count_mono) auto
  show ?thesis
    unfolding calculateConfidenceScore_def Let_def assms(4)
    by (rule chain_mono) (fact t1 t2 t3)+
qed

lemma lit_values:
  "js_lit 0.2 = 3602879701896397 / 18014398509481984"
  "js_lit 0.6 = 5404319552844595 / 9007199254740992"
  by (simp_all add: js_lit_def rnd_def round_pos_def ilog2_def round_half_even_def Let_def
      ilog2_up.simps ilog2_down.simps)


lemma truncate_fields:
  "uniqueDays (EvidenceMetrics.truncate mc) = uniqueDays mc"
  "sessionCount (EvidenceMetrics.truncate mc) = sessionCount mc"
  "hasObservedEvidence (EvidenceMetrics.truncate mc) = hasObservedEvidence mc"
  "observedSessionCount (EvidenceMetrics.truncate mc) = observedSessionCount mc"
  "hasErrorCorrectionCycles (EvidenceMetrics.truncate mc) = hasErrorCorrectionCycles mc"
  "activityTypes (EvidenceMetrics.truncate mc) = activityTypes mc"
  by (simp_all add: EvidenceMetrics.truncate_def)

lemma client_score_eq:
  "calculateConfidenceScore_client mc = calculateConfidenceScore (EvidenceMetrics.truncate mc)"
  unfolding calculateConfidenceScore_client_def calculateConfidenceScore_def truncate_fields ..

lemma client_requirements_eq:
  "evaluateUnlockRequirements_client mc = evaluateUnlockRequirements (EvidenceMetrics.truncate mc)"
  unfolding evaluateUnlockRequirements_client_def evaluateUnlockRequirements_def truncate_fields ..

lemma client_shouldUnlock_eq: "shouldUnlock_client r = shouldUnlock r"
  by (simp add: shouldUnlock_client_def shouldUnlock_def)

lemma lit_exact_bounds: "0.2 \<le> js_lit 0.2" "js_lit 0.6 \<le> 0.6"
  by (simp_all only: lit_values)

lemma requirements_fields:
  "multiple_days (evaluateUnlockRequirements m) = (3 \<le> uniqueDays m)"
  "multiple_sessions (evaluateUnlockRequirements m) = (3 \<le> sessionCount m)"
  "observed_evidence (evaluateUnlockRequirements m) = hasObservedEvidence m"
  "growth_signal (evaluateUnlockRequirements m)
     = (hasErrorCorrectionCycles m \<or> 2 \<le> observedSessionCount m)"
  "consistency (evaluateUnlockRequirements m) = (activityTypes m \<noteq> [] \<and> 3 \<le> sessionCount m)"
  by (simp_all add: evaluateUnlockRequirements_def MIN_UNIQUE_DAYS_def MIN_SESSIONS_def Suc_le_eq)

section \<open>Properties of the aggregator\<close>

lemma agg_step_fields:
  "uniqueDates (agg_step s a) =
     (if truthy_str (dateStr a) then set_add (uniqueDates s) (the (dateStr a)) else uniqueDates s)"
  "agg_activityTypes (agg_step s a) =
     (if truthy_str (type a) then set_add (agg_activityTypes s) (the (type a))
      else agg_activityTypes s)"
  "agg_hasObservedEvidence (agg_step s a) = (agg_hasObservedEvidence s \<or> isObserved a)"
  "agg_observedSessionCount (agg_step s a) =
     agg_observedSessionCount s + (if isObserved a then 1 else 0)"
  "agg_hasErrorCorrectionCycles (agg_step s a) = (agg_hasErrorCorrectionCycles s \<or> has_cycles a)"
  "agg_totalDuration (agg_step s a) = agg_totalDuration s"
  by (simp_all add: agg_step_def Let_def)

lemma agg_step_client_fields:
  "uniqueDates (agg_step_client s a) =
     (if truthy_str (dateStr_client a) then set_add (uniqueDates s) (the (dateStr_client a))
      else uniqueDates s)"
  "agg_activityTypes (agg_step_client s a) =
     (if truthy_str (type a) then set_add (agg_activityTypes s) (the (type a))
      else agg_activityTypes s)"
  "agg_hasObservedEvidence (agg_step_client s a) = (agg_hasObservedEvidence s \<or> isObserved a)"
  "agg_observedSessionCount (agg_step_client s a) =
     agg_observedSessionCount s + (if isObserved a then 1 else 0)"
  "agg_hasErrorCorrectionCycles (agg_step_client s a) =
     (agg_hasErrorCorrectionCycles s \<or> has_cycles a)"
  by (simp_all add: agg_step_client_def Let_def split: option.split)


lemma set_add_set: "set (set_add xs x) = insert x (set xs)"
  by (auto simp: set_add_def)

lemma set_add_distinct: "distinct xs \<Longrightarrow> distinct (set_add xs x)"
  by (simp add: set_add_def)

lemma day_strings_Cons:
  "day_strings (a # as) =
     (if truthy_str (dateStr a) then the (dateStr a) # day_strings as else day_strings as)"
  by (simp add: day_strings_def)

lemma foldl_agg_dates:
  "set (uniqueDates (foldl agg_step s as)) = set (uniqueDates s) \<union> set (day_strings as)"
  by (induction as arbitrary: s) (auto simp: agg_step_fields set_add_set day_strings_Cons day_strings_def)

lemma foldl_agg_distinct:
  "distinct (uniqueDates s) \<Longrightarrow> distinct (uniqueDates (foldl agg_step s as))"
  by (induction as arbitrary: s) (simp_all add: agg_step_fields set_add_distinct)

lemma foldl_agg_observed_count:
  "agg_observedSessionCount (foldl agg_step s as) =
     agg_observedSessionCount s + length (filter isObserved as)"
  by (induction as arbitrary: s) (simp_all add: agg_step_fields)

lemma foldl_agg_observed:
  "agg_hasObservedEvidence (foldl agg_step s as) =
     (agg_hasObservedEvidence s \<or> (\<exists>a\<in>set as. isObserved a))"
  by (induction as arbitrary: s) (auto simp: agg_step_fields)

lemma foldl_agg_cycles:
  "agg_hasErrorCorrectionCycles (foldl agg_step s as) =
     (agg_hasErrorCorrectionCycles s \<or> (\<exists>a\<in>set as. has_cycles a))"
  by (induction as arbitrary: s) (auto simp: agg_step_fields)

lemma metrics_fields:
  "uniqueDays (calculateEvidenceMetrics as) = card (set (day_strings as))"
  "sessionCount (calculateEvidenceMetrics as) = length as"
  "hasObservedEvidence (calculateEvidenceMetrics as) = (\<exists>a\<in>set as. isObserved a)"
  "observedSessionCount (calculateEvidenceMetrics as) = length (filter isObserved as)"
  "hasErrorCorrectionCycles (calculateEvidenceMetrics as) = (\<exists>a\<in>set as. has_cycles a)"
proof -
  have "distinct (uniqueDates (foldl agg_step agg_init as))"
    by (rule foldl_agg_distinct) (simp add: agg_init_def)
  then have "length (uniqueDates (foldl agg_step agg_init as))
               = card (set (uniqueDates (foldl agg_step agg_init as)))"
    by (simp add: distinct_card)
  then show "uniqueDays (calculateEvidenceMetrics as) = card (set (day_strings as))"
    by (simp add: calculateEvidenceMetrics_def Let_def foldl_agg_dates agg_init_def)
qed (simp_all add: calculateEvidenceMetrics_def Let_def foldl_agg_observed_count
      foldl_agg_observed foldl_agg_cycles agg_init_def)

lemma observed_count_pos:
  "hasObservedEvidence (calculateEvidenceMetrics as)
     \<Longrightarrow> 1 \<le> observedSessionCount (calculateEvidenceMetrics as)"
  by (auto simp: metrics_fields Suc_le_eq filter_empty_conv)

lemma rnd_values:
  "rnd 3 = 3" "rnd 1 = 1"
  "rnd (3 / 10) = 5404319552844595 / 18014398509481984"
  "rnd (3 / 20) = 5404319552844595 / 36028797018963968"
  "rnd (1 / 5) = 3602879701896397 / 18014398509481984"
  "rnd (1 / 10) = 3602879701896397 / 36028797018963968"
  "rnd (1 / 20) = 3602879701896397 / 72057594037927936"
  "rnd (3 / 5) = 5404319552844595 / 9007199254740992"
  "rnd (9 / 20) = 8106479329266893 / 18014398509481984"
  by (simp_all add: rnd_def round_pos_def ilog2_def round_half_even_def Let_def
      ilog2_up.simps ilog2_down.simps)

lemma days_term_saturated:
  assumes "3 \<le> n"
  shows "min (js_div (js_count n) 10) (js_lit 0.15) = js_lit 0.15"
proof -
  have "js_count 3 \<le> js_count n" using assms by (rule js_count_mono)
  then have "js_div (js_count 3) 10 \<le> js_div (js_count n) 10" by (rule js_div_mono) simp
  moreover have "js_lit 0.15 \<le> js_div (js_count 3) 10"
    by (simp add: js_lit_def js_div_def js_count_def rnd_values)
  ultimately show ?thesis by simp
qed

lemma sessions_term_saturated:
  assumes "3 \<le> n"
  shows "min (js_div (js_count n) 20) (js_lit 0.1) = js_lit 0.1"
proof -
  have "js_count 3 \<le> js_count n" using assms by (rule js_count_mono)
  then have "js_div (js_count 3) 20 \<le> js_div (js_count n) 20" by (rule js_div_mono) simp
  moreover have "js_lit 0.1 \<le> js_div (js_count 3) 20"
    by (simp add: js_lit_def js_div_def js_count_def rnd_values)
  ultimately show ?thesis by simp
qed

lemma observed_term_saturated:
  assumes "1 \<le> n"
  shows "min (js_div (js_count n) 5) (js_lit 0.1) = js_lit 0.1"
proof -
  have "js_count 1 \<le> js_count n" using assms by (rule js_count_mono)
  then have "js_div (js_count 1) 5 \<le> js_div (js_count n) 5" by (rule js_div_mono) simp
  moreover have "js_lit 0.1 \<le> js_div (js_count 1) 5"
    by (simp add: js_lit_def js_div_def js_count_def rnd_values)
  ultimately show ?thesis by simp
qed

lemma saturated_sums:
  "js_add (js_add (js_add (js_lit 0.2) (js_lit 0.15)) (js_lit 0.1)) (js_lit 0.1)
     = 4953959590107545 / 9007199254740992"
  "js_add (4953959590107545 / 9007199254740992) (js_lit 0.05)
     = 5404319552844595 / 9007199254740992"
  by (simp_all add: js_lit_def js_add_def rnd_values)
     (simp_all add: rnd_def round_pos_def ilog2_def round_half_even_def Let_def
      ilog2_up.simps ilog2_down.simps)

lemma unlocked_score_value:
  assumes "3 \<le> uniqueDays m" "3 \<le> sessionCount m" "1 \<le> observedSessionCount m"
  shows "calculateConfidenceScore m =
           (if hasErrorCorrectionCycles m then 5404319552844595 / 9007199254740992
            else 4953959590107545 / 9007199254740992)"
  unfolding calculateConfidenceScore_def Let_def
    days_term_saturated [OF assms(1)] sessions_term_saturated [OF assms(2)]
    observed_term_saturated [OF assms(3)] saturated_sums
  by (simp add: js_lit_def rnd_values)

lemma level_of_unlocked_scores:
  "getConfidenceLevel (5404319552844595 / 9007199254740992) = ''early_evidence''"
  "getConfidenceLevel (4953959590107545 / 9007199254740992) = ''early_evidence''"
  by (simp_all add: getConfidenceLevel_def js_lit_def rnd_values)

lemma three_observed_days_metrics:
  "calculateEvidenceMetrics three_observed_days =
     \<lparr>uniqueDays = 3, sessionCount = 3, hasObservedEvidence = True, observedSessionCount = 2,
      hasErrorCorrectionCycles = False, activityTypes = [''code'']\<rparr>"
  by (simp add: three_observed_days_def calculateEvidenceMetrics_def agg_step_def agg_init_def
      Let_def truthy_str_def dateStr_def split_T_first_def set_add_def isObserved_def has_cycles_def
      utf16_def code_unit_of_def)

section \<open>The unlock rule\<close>

text \<open>
  Claim C2. For every metrics value each of the five requirements is the stated threshold
  test, \<open>shouldUnlock\<close> of the evaluated requirements holds exactly when all five tests
  hold, \<open>shouldUnlock\<close> is the conjunction of the five booleans, and setting any one of them
  to false makes it false. The client's copies of the two functions compute the same.
\<close>

theorem unlock_iff_all_five:
  "multiple_days (evaluateUnlockRequirements m) = (3 \<le> uniqueDays m) \<and>
   multiple_sessions (evaluateUnlockRequirements m) = (3 \<le> sessionCount m) \<and>
   observed_evidence (evaluateUnlockRequirements m) = hasObservedEvidence m \<and>
   growth_signal (evaluateUnlockRequirements m)
     = (hasErrorCorrectionCycles m \<or> 2 \<le> observedSessionCount m) \<and>
   consistency (evaluateUnlockRequirements m) = (activityTypes m \<noteq> [] \<and> 3 \<le> sessionCount m) \<and>
   shouldUnlock (evaluateUnlockRequirements m)
     = (3 \<le> uniqueDays m \<and> 3 \<le> sessionCount m \<and> hasObservedEvidence m \<and>
        (hasErrorCorrectionCycles m \<or> 2 \<le> observedSessionCount m) \<and>
        (activityTypes m \<noteq> [] \<and> 3 \<le> sessionCount m)) \<and>
   shouldUnlock r = (multiple_days r \<and> multiple_sessions r \<and> observed_evidence r \<and>
        growth_signal r \<and> consistency r) \<and>
   \<not> shouldUnlock (r\<lparr>multiple_days := False\<rparr>) \<and>
   \<not> shouldUnlock (r\<lparr>multiple_sessions := False\<rparr>) \<and>
   \<not> shouldUnlock (r\<lparr>observed_evidence := False\<rparr>) \<and>
   \<not> shouldUnlock (r\<lparr>growth_signal := False\<rparr>) \<and>
   \<not> shouldUnlock (r\<lparr>consistency := False\<rparr>) \<and>
   evaluateUnlockRequirements_client mc = evaluateUnlockRequirements (EvidenceMetrics.truncate mc) \<and>
   shouldUnlock_client r = shouldUnlock r"
  by (simp add: shouldUnlock_def shouldUnlock_client_def requirements_fields
      client_requirements_eq)

section \<open>The confidence score\<close>

lemma rnd_small: "rnd 2 = 2" "rnd 0 = 0"
  by (simp_all add: rnd_def round_pos_def ilog2_def round_half_even_def Let_def
      ilog2_up.simps ilog2_down.simps)

lemma count_values: "js_count 0 = 0" "js_count 1 = 1" "js_count (Suc 0) = 1" "js_count 2 = 2"
  using rnd_values(2) rnd_small by (simp_all add: js_count_def)

lemma days_term_values:
  "min (js_div (js_count n) 10) (js_lit 0.15) =
     (if n = 0 then 0 else if n = 1 then 3602879701896397 / 36028797018963968
      else 5404319552844595 / 36028797018963968)"
proof -
  consider "n = 0" | "n = 1" | "2 \<le> n" by linarith
  then show ?thesis
  proof cases
    case 1
    then show ?thesis by (simp add: count_values js_div_def js_lit_def rnd_values rnd_small)
  next
    case 2
    then show ?thesis by (simp add: count_values js_div_def js_lit_def rnd_values)
  next
    case 3
    then have "js_count 2 \<le> js_count n" by (rule js_count_mono)
    then have "js_div (js_count 2) 10 \<le> js_div (js_count n) 10" by (rule js_div_mono) simp
    moreover have "js_lit 0.15 \<le> js_div (js_count 2) 10"
      by (simp add: count_values js_div_def js_lit_def rnd_values)
    ultimately have "min (js_div (js_count n) 10) (js_lit 0.15) = js_lit 0.15" by simp
    moreover have "js_lit 0.15 = 5404319552844595 / 36028797018963968"
      by (simp add: js_lit_def rnd_values)
    ultimately show ?thesis using 3 by simp
  qed
qed

lemma sessions_term_values:
  "min (js_div (js_count n) 20) (js_lit 0.1) =
     (if n = 0 then 0 else if n = 1 then 3602879701896397 / 72057594037927936
      else 3602879701896397 / 36028797018963968)"
proof -
  consider "n = 0" | "n = 1" | "2 \<le> n" by linarith
  then show ?thesis
  proof cases
    case 1
    then show ?thesis by (simp add: count_values js_div_def js_lit_def rnd_values rnd_small)
  next
    case 2
    then show ?thesis by (simp add: count_values js_div_def js_lit_def rnd_values)
  next
    case 3
    then have "js_count 2 \<le> js_count n" by (rule js_count_mono)
    then have "js_div (js_count 2) 20 \<le> js_div (js_count n) 20" by (rule js_div_mono) simp
    moreover have "js_lit 0.1 \<le> js_div (js_count 2) 20"
      by (simp add: count_values js_div_def js_lit_def rnd_values)
    ultimately have "min (js_div (js_count n) 20) (js_lit 0.1) = js_lit 0.1" by simp
    moreover have "js_lit 0.1 = 3602879701896397 / 36028797018963968"
      by (simp add: js_lit_def rnd_values)
    ultimately show ?thesis using 3 by simp
  qed
qed

lemma observed_term_values:
  "min (js_div (js_count n) 5) (js_lit 0.1) =
     (if n = 0 then 0 else 3602879701896397 / 36028797018963968)"
proof (cases "n = 0")
  case True
  then show ?thesis by (simp add: count_values js_div_def js_lit_def rnd_values rnd_small)
next
  case False
  then have "1 \<le> n" by simp
  then have "min (js_div (js_count n) 5) (js_lit 0.1) = js_lit 0.1"
    by (rule observed_term_saturated)
  moreover have "js_lit 0.1 = 3602879701896397 / 36028797018963968"
    by (simp add: js_lit_def rnd_values)
  ultimately show ?thesis using False by simp
qed

lemma exact_term_values:
  "min (real n / 10) 0.15 = (if n = 0 then 0 else if n = 1 then 1 / 10 else 3 / 20)"
  "min (real n / 20) 0.1 = (if n = 0 then 0 else if n = 1 then 1 / 20 else 1 / 10)"
  "min (real n / 5) 0.1 = (if n = 0 then 0 else 1 / 10)"
proof -
  have c: "n = 0 \<or> n = 1 \<or> 2 \<le> n" by linarith
  have "2 \<le> real n" if "2 \<le> n" using that by simp
  then show "min (real n / 10) 0.15 = (if n = 0 then 0 else if n = 1 then 1 / 10 else 3 / 20)"
    using c by (auto simp: min_def)
  have "2 \<le> real n" if "2 \<le> n" using that by simp
  then show "min (real n / 20) 0.1 = (if n = 0 then 0 else if n = 1 then 1 / 20 else 1 / 10)"
    using c by (auto simp: min_def)
  have "1 \<le> real n" if "n \<noteq> 0" using that by simp
  then show "min (real n / 5) 0.1 = (if n = 0 then 0 else 1 / 10)"
    by (auto simp: min_def)
qed

lemma js_add_values:
  "js_add (3602879701896397 / 18014398509481984) (0) = 3602879701896397 / 18014398509481984"
  "js_add (3602879701896397 / 18014398509481984) (3602879701896397 / 72057594037927936) = 1 / 4"
  "js_add (3602879701896397 / 18014398509481984) (3602879701896397 / 36028797018963968) = 1351079888211149 / 4503599627370496"
  "js_add (3602879701896397 / 18014398509481984) (5404319552844595 / 36028797018963968) = 3152519739159347 / 9007199254740992"
  "js_add (1 / 4) (0) = 1 / 4"
  "js_add (1 / 4) (3602879701896397 / 72057594037927936) = 5404319552844595 / 18014398509481984"
  "js_add (1 / 4) (3602879701896397 / 36028797018963968) = 3152519739159347 / 9007199254740992"
  "js_add (1351079888211149 / 4503599627370496) (0) = 1351079888211149 / 4503599627370496"
  "js_add (1351079888211149 / 4503599627370496) (3602879701896397 / 72057594037927936) = 6305039478318695 / 18014398509481984"
  "js_add (1351079888211149 / 4503599627370496) (3602879701896397 / 36028797018963968) = 3602879701896397 / 9007199254740992"
  "js_add (3152519739159347 / 9007199254740992) (0) = 3152519739159347 / 9007199254740992"
  "js_add (3152519739159347 / 9007199254740992) (3602879701896397 / 72057594037927936) = 7205759403792793 / 18014398509481984"
  "js_add (3152519739159347 / 9007199254740992) (3602879701896397 / 36028797018963968) = 2026619832316723 / 4503599627370496"
  "js_add (6305039478318695 / 18014398509481984) (0) = 6305039478318695 / 18014398509481984"
  "js_add (6305039478318695 / 18014398509481984) (3602879701896397 / 72057594037927936) = 3602879701896397 / 9007199254740992"
  "js_add (6305039478318695 / 18014398509481984) (3602879701896397 / 36028797018963968) = 4053239664633447 / 9007199254740992"
  "js_add (7205759403792793 / 18014398509481984) (0) = 7205759403792793 / 18014398509481984"
  "js_add (7205759403792793 / 18014398509481984) (3602879701896397 / 72057594037927936) = 2026619832316723 / 4503599627370496"
  "js_add (7205759403792793 / 18014398509481984) (3602879701896397 / 36028797018963968) = 1 / 2"
  "js_add (3602879701896397 / 9007199254740992) (0) = 3602879701896397 / 9007199254740992"
  "js_add (3602879701896397 / 9007199254740992) (3602879701896397 / 72057594037927936) = 8106479329266893 / 18014398509481984"
  "js_add (3602879701896397 / 9007199254740992) (3602879701896397 / 36028797018963968) = 1 / 2"
  "js_add (2026619832316723 / 4503599627370496) (0) = 2026619832316723 / 4503599627370496"
  "js_add (2026619832316723 / 4503599627370496) (3602879701896397 / 72057594037927936) = 9007199254740991 / 18014398509481984"
  "js_add (2026619832316723 / 4503599627370496) (3602879701896397 / 36028797018963968) = 4953959590107545 / 9007199254740992"
  "js_add (4053239664633447 / 9007199254740992) (3602879701896397 / 72057594037927936) = 4503599627370497 / 9007199254740992"
  "js_add (1 / 2) (3602879701896397 / 72057594037927936) = 2476979795053773 / 4503599627370496"
  "js_add (4953959590107545 / 9007199254740992) (3602879701896397 / 72057594037927936) = 5404319552844595 / 9007199254740992"
  by (simp_all add: js_add_def rnd_def round_pos_def ilog2_def round_half_even_def Let_def
      ilog2_up.simps ilog2_down.simps)

lemma literal_values:
  "js_lit 0.2 = 3602879701896397 / 18014398509481984"
  "js_lit 0.05 = 3602879701896397 / 72057594037927936"
  "js_lit 0.6 = 5404319552844595 / 9007199254740992"
  by (simp_all add: js_lit_def rnd_values)

text \<open>
  Claim C4, as stated, fails when the formula is read as arithmetic: for one day, one
  session, one observed session and an error-correction cycle its value is exactly 0.5,
  and the code returns 0.5000000000000001, the next binary64 number.
\<close>

theorem score_differs_from_exact_formula:
  "calculateConfidenceScore one_of_each = 4503599627370497 / 9007199254740992 \<and>
   confidence_formula_spec one_of_each = 1 / 2 \<and>
   calculateConfidenceScore one_of_each \<noteq> confidence_formula_spec one_of_each"
proof -
  have c: "calculateConfidenceScore one_of_each = 4503599627370497 / 9007199254740992"
    unfolding calculateConfidenceScore_def Let_def
      days_term_values sessions_term_values observed_term_values literal_values
    by (simp add: one_of_each_def js_add_values)
  have e: "confidence_formula_spec one_of_each = 1 / 2"
    by (simp add: confidence_formula_spec_def one_of_each_def)
  show ?thesis unfolding c e by simp
qed

text \<open>
  Claim C4, amended. The score is the formula computed in binary64 arithmetic, every
  literal, quotient and sum rounded to nearest: for every metrics value it differs from the
  exact value of the formula by at most \<open>2^-53\<close>, in the server's and in the client's copy.
\<close>

theorem score_within_rounding_of_formula:
  "\<bar>calculateConfidenceScore m - confidence_formula_spec m\<bar> \<le> 1 / 2 ^ 53 \<and>
   \<bar>calculateConfidenceScore_client mc - confidence_formula_spec (EvidenceMetrics.truncate mc)\<bar>
     \<le> 1 / 2 ^ 53"
proof -
  have "\<bar>calculateConfidenceScore x - confidence_formula_spec x\<bar> \<le> 1 / 2 ^ 53" for x
    unfolding calculateConfidenceScore_def confidence_formula_spec_def Let_def
      days_term_values sessions_term_values observed_term_values exact_term_values literal_values
    by (simp add: js_add_values)
  then show ?thesis unfolding client_score_eq by blast
qed

text \<open>
  Claim C5. Raising \<open>uniqueDays\<close>, \<open>sessionCount\<close> or \<open>observedSessionCount\<close> with the
  other fields fixed never lowers the score, and the score always lies between 0.2 and 0.6:
  between the two binary64 literals, and so between the exact decimals as well.
\<close>

theorem score_monotone_and_bounded:
  "(uniqueDays m \<le> uniqueDays m' \<and> sessionCount m \<le> sessionCount m' \<and>
    observedSessionCount m \<le> observedSessionCount m' \<and>
    hasErrorCorrectionCycles m = hasErrorCorrectionCycles m'
      \<longrightarrow> calculateConfidenceScore m \<le> calculateConfidenceScore m') \<and>
   (uniqueDays mc \<le> uniqueDays mc' \<and> sessionCount mc \<le> sessionCount mc' \<and>
    observedSessionCount mc \<le> observedSessionCount mc' \<and>
    hasErrorCorrectionCycles mc = hasErrorCorrectionCycles mc'
      \<longrightarrow> calculateConfidenceScore_client mc \<le> calculateConfidenceScore_client mc') \<and>
   js_lit 0.2 \<le> calculateConfidenceScore m \<and> calculateConfidenceScore m \<le> js_lit 0.6 \<and>
   0.2 \<le> calculateConfidenceScore m \<and> calculateConfidenceScore m \<le> 0.6 \<and>
   0.2 \<le> calculateConfidenceScore_client mc \<and> calculateConfidenceScore_client mc \<le> 0.6"
proof -
  have lo: "0.2 \<le> calculateConfidenceScore x" for x
    using score_lower [of x] lit_exact_bounds(1) by linarith
  have hi: "calculateConfidenceScore x \<le> 0.6" for x
    using score_upper [of x] lit_exact_bounds(2) by linarith
  have "uniqueDays mc \<le> uniqueDays mc' \<and> sessionCount mc \<le> sessionCount mc' \<and>
    observedSessionCount mc \<le> observedSessionCount mc' \<and>
    hasErrorCorrectionCycles mc = hasErrorCorrectionCycles mc'
      \<longrightarrow> calculateConfidenceScore_client mc \<le> calculateConfidenceScore_client mc'"
    unfolding client_score_eq by (intro impI score_mono) (simp_all add: truncate_fields)
  moreover have "uniqueDays m \<le> uniqueDays m' \<and> sessionCount m \<le> sessionCount m' \<and>
    observedSessionCount m \<le> observedSessionCount m' \<and>
    hasErrorCorrectionCycles m = hasErrorCorrectionCycles m'
      \<longrightarrow> calculateConfidenceScore m \<le> calculateConfidenceScore m'"
    by (intro impI score_mono) simp_all
  ultimately show ?thesis
    using lo hi score_lower [of m] score_upper [of m] unfolding client_score_eq by blast
qed

theorem score_monotone_and_bounded_witness:
  "calculateConfidenceScore \<lparr>uniqueDays = 1, sessionCount = 1, hasObservedEvidence = False,
      observedSessionCount = 0, hasErrorCorrectionCycles = False, activityTypes = []\<rparr>
   \<le> calculateConfidenceScore \<lparr>uniqueDays = 2, sessionCount = 1, hasObservedEvidence = False,
      observedSessionCount = 0, hasErrorCorrectionCycles = False, activityTypes = []\<rparr> \<and>
   calculateConfidenceScore_client \<lparr>uniqueDays = 1, sessionCount = 1, hasObservedEvidence = False,
      observedSessionCount = 0, hasErrorCorrectionCycles = False, activityTypes = [],
      totalDuration = 0\<rparr>
   \<le> calculateConfidenceScore_client \<lparr>uniqueDays = 1, sessionCount = 4,
      hasObservedEvidence = False, observedSessionCount = 0, hasErrorCorrectionCycles = False,
      activityTypes = [], totalDuration = 0\<rparr>"
  using score_monotone_and_bounded
    [of "\<lparr>uniqueDays = 1, sessionCount = 1, hasObservedEvidence = False,
          observedSessionCount = 0, hasErrorCorrectionCycles = False, activityTypes = []\<rparr>"
        "\<lparr>uniqueDays = 2, sessionCount = 1, hasObservedEvidence = False,
          observedSessionCount = 0, hasErrorCorrectionCycles = False, activityTypes = []\<rparr>"
        "\<lparr>uniqueDays = 1, sessionCount = 1, hasObservedEvidence = False,
          observedSessionCount = 0, hasErrorCorrectionCycles = False, activityTypes = [],
          totalDuration = 0\<rparr>"
        "\<lparr>uniqueDays = 1, sessionCount = 4, hasObservedEvidence = False,
          observedSessionCount = 0, hasErrorCorrectionCycles = False, activityTypes = [],
          totalDuration = 0\<rparr>"]
  by simp

text \<open>
  Claim C10, as stated, fails: three sessions on three days, two of them observed and none
  with an error-correction cycle, unlock the card, and the binary64 sum
  \<open>0.2 + 0.15 + 0.1 + 0.1\<close> is \<open>0.5499999999999999\<close>, below 0.55 (the exact decimal
  and the literal).
\<close>

theorem unlocked_score_below_055:
  "shouldUnlock (evaluateUnlockRequirements (calculateEvidenceMetrics three_observed_days)) \<and>
   calculateConfidenceScore (calculateEvidenceMetrics three_observed_days) < 0.55 \<and>
   calculateConfidenceScore (calculateEvidenceMetrics three_observed_days) < js_lit 0.55"
  unfolding three_observed_days_metrics
  by (simp add: shouldUnlock_def evaluateUnlockRequirements_def MIN_UNIQUE_DAYS_def
      MIN_SESSIONS_def unlocked_score_value)
     (simp add: js_lit_def rnd_def round_pos_def ilog2_def round_half_even_def Let_def
      ilog2_up.simps ilog2_down.simps)

text \<open>
  Claim C10, amended. Whenever the metrics of an activity list unlock the card, the score
  is one of two numbers: \<open>0.6\<close> with an error-correction cycle, \<open>0.5499999999999999\<close>
  without. Both are at least \<open>0.45\<close>, so the level is always \<open>early_evidence\<close>.
\<close>

theorem unlocked_score_early_evidence:
  assumes "shouldUnlock (evaluateUnlockRequirements (calculateEvidenceMetrics as))"
  shows "calculateConfidenceScore (calculateEvidenceMetrics as) =
           (if hasErrorCorrectionCycles (calculateEvidenceMetrics as)
            then 5404319552844595 / 9007199254740992
            else 4953959590107545 / 9007199254740992) \<and>
         js_lit 0.45 \<le> calculateConfidenceScore (calculateEvidenceMetrics as) \<and>
         calculateConfidenceScore (calculateEvidenceMetrics as) \<le> js_lit 0.6 \<and>
         getConfidenceLevel (calculateConfidenceScore (calculateEvidenceMetrics as))
           = ''early_evidence''"
proof -
  let ?m = "calculateEvidenceMetrics as"
  from assms have u: "3 \<le> uniqueDays ?m" "3 \<le> sessionCount ?m" "hasObservedEvidence ?m"
    by (simp_all add: shouldUnlock_def requirements_fields)
  from u(3) have "1 \<le> observedSessionCount ?m" by (rule observed_count_pos)
  with u have v: "calculateConfidenceScore ?m =
           (if hasErrorCorrectionCycles ?m then 5404319552844595 / 9007199254740992
            else 4953959590107545 / 9007199254740992)"
    by (intro unlocked_score_value)
  moreover have "getConfidenceLevel (calculateConfidenceScore ?m) = ''early_evidence''"
    unfolding v by (simp add: level_of_unlocked_scores)
  moreover have "js_lit 0.45 \<le> calculateConfidenceScore ?m"
    unfolding v by (simp add: js_lit_def rnd_values)
  ultimately show ?thesis using score_upper [of ?m] by blast
qed

theorem unlocked_score_early_evidence_witness:
  "getConfidenceLevel (calculateConfidenceScore (calculateEvidenceMetrics three_observed_days))
     = ''early_evidence'' \<and>
   calculateConfidenceScore (calculateEvidenceMetrics three_observed_days)
     = 4953959590107545 / 9007199254740992"
proof -
  have u: "shouldUnlock (evaluateUnlockRequirements (calculateEvidenceMetrics three_observed_days))"
    unfolding three_observed_days_metrics
    by (simp add: shouldUnlock_def evaluateUnlockRequirements_def MIN_UNIQUE_DAYS_def
        MIN_SESSIONS_def)
  show ?thesis
    using unlocked_score_early_evidence [OF u] by (simp add: three_observed_days_metrics)
qed

lemma created_at_absent: "created_at a = None \<Longrightarrow> dateStr_client a = dateStr a"
  by (simp add: dateStr_client_def dateStr_def truthy_str_def)

lemma agg_step_client_agrees:
  assumes "dateStr_client a = dateStr a"
    and "uniqueDates s = uniqueDates s'" "agg_activityTypes s = agg_activityTypes s'"
    and "agg_hasObservedEvidence s = agg_hasObservedEvidence s'"
    and "agg_observedSessionCount s = agg_observedSessionCount s'"
    and "agg_hasErrorCorrectionCycles s = agg_hasErrorCorrectionCycles s'"
  shows "uniqueDates (agg_step_client s a) = uniqueDates (agg_step s' a) \<and>
         agg_activityTypes (agg_step_client s a) = agg_activityTypes (agg_step s' a) \<and>
         agg_hasObservedEvidence (agg_step_client s a) = agg_hasObservedEvidence (agg_step s' a) \<and>
         agg_observedSessionCount (agg_step_client s a) = agg_observedSessionCount (agg_step s' a) \<and>
         agg_hasErrorCorrectionCycles (agg_step_client s a)
           = agg_hasErrorCorrectionCycles (agg_step s' a)"
  using assms by (simp add: agg_step_fields agg_step_client_fields)

lemma foldl_client_agrees:
  assumes "\<forall>a\<in>set as. dateStr_client a = dateStr a"
    and "uniqueDates s = uniqueDates s'" "agg_activityTypes s = agg_activityTypes s'"
    and "agg_hasObservedEvidence s = agg_hasObservedEvidence s'"
    and "agg_observedSessionCount s = agg_observedSessionCount s'"
    and "agg_hasErrorCorrectionCycles s = agg_hasErrorCorrectionCycles s'"
  shows "uniqueDates (foldl agg_step_client s as) = uniqueDates (foldl agg_step s' as) \<and>
         agg_activityTypes (foldl agg_step_client s as) = agg_activityTypes (foldl agg_step s' as) \<and>
         agg_hasObservedEvidence (foldl agg_step_client s as)
           = agg_hasObservedEvidence (foldl agg_step s' as) \<and>
         agg_observedSessionCount (foldl agg_step_client s as)
           = agg_observedSessionCount (foldl agg_step s' as) \<and>
         agg_hasErrorCorrectionCycles (foldl agg_step_client s as)
           = agg_hasErrorCorrectionCycles (foldl agg_step s' as)"
  using assms
proof (induction as arbitrary: s s')
  case Nil
  then show ?case by simp
next
  case (Cons a as)
  from Cons.prems have d: "dateStr_client a = dateStr a" by simp
  have step: "uniqueDates (agg_step_client s a) = uniqueDates (agg_step s' a) \<and>
         agg_activityTypes (agg_step_client s a) = agg_activityTypes (agg_step s' a) \<and>
         agg_hasObservedEvidence (agg_step_client s a) = agg_hasObservedEvidence (agg_step s' a) \<and>
         agg_observedSessionCount (agg_step_client s a) = agg_observedSessionCount (agg_step s' a) \<and>
         agg_hasErrorCorrectionCycles (agg_step_client s a)
           = agg_hasErrorCorrectionCycles (agg_step s' a)"
    using d Cons.prems(2-6) by (rule agg_step_client_agrees)
  from Cons.prems(1) have rest: "\<forall>a\<in>set as. dateStr_client a = dateStr a" by simp
  show ?case
    using Cons.IH [OF rest, of "agg_step_client s a" "agg_step s' a"] step by simp
qed

lemma client_metrics_agree:
  assumes "\<forall>a\<in>set as. dateStr_client a = dateStr a"
  shows "EvidenceMetrics.truncate (calculateEvidenceMetrics_client as) = calculateEvidenceMetrics as"
  using foldl_client_agrees [OF assms, of agg_init agg_init]
  by (simp add: calculateEvidenceMetrics_client_def calculateEvidenceMetrics_def Let_def
      EvidenceMetrics.truncate_def)

section \<open>Client and server\<close>

text \<open>
  Claim C6, as stated, fails: the client takes the day from \<open>created_at\<close> before it looks
  at \<open>date\<close>, the server reads \<open>date\<close> only. On three stored rows, which carry
  \<open>created_at\<close> and no \<open>date\<close>, the client counts three days and unlocks, the server counts
  none and locks.
\<close>

theorem client_and_server_disagree:
  "uniqueDays (calculateEvidenceMetrics_client stored_rows) = 3 \<and>
   uniqueDays (calculateEvidenceMetrics stored_rows) = 0 \<and>
   shouldUnlock_client (evaluateUnlockRequirements_client
     (calculateEvidenceMetrics_client stored_rows)) \<and>
   \<not> shouldUnlock (evaluateUnlockRequirements (calculateEvidenceMetrics stored_rows))"
  by (simp add: stored_rows_def calculateEvidenceMetrics_def calculateEvidenceMetrics_client_def
      agg_step_def agg_step_client_def agg_init_def Let_def truthy_str_def dateStr_def
      dateStr_client_def split_T_first_def set_add_def isObserved_def has_cycles_def
      shouldUnlock_def shouldUnlock_client_def evaluateUnlockRequirements_def
      evaluateUnlockRequirements_client_def MIN_UNIQUE_DAYS_def MIN_SESSIONS_def
      utf16_def code_unit_of_def)

text \<open>
  Claim C6, amended. On every list of activity records whose day is the same under both
  rules (in particular records without \<open>created_at\<close>, the shape the client sends to the
  server) the two pipelines give the same metrics in the fields they share, the same five
  requirements, the same unlock decision and the same confidence score.
\<close>

theorem client_agrees_with_server:
  assumes "\<forall>a\<in>set as. dateStr_client a = dateStr a"
  shows "EvidenceMetrics.truncate (calculateEvidenceMetrics_client as) = calculateEvidenceMetrics as \<and>
         evaluateUnlockRequirements_client (calculateEvidenceMetrics_client as)
           = evaluateUnlockRequirements (calculateEvidenceMetrics as) \<and>
         shouldUnlock_client (evaluateUnlockRequirements_client (calculateEvidenceMetrics_client as))
           = shouldUnlock (evaluateUnlockRequirements (calculateEvidenceMetrics as)) \<and>
         calculateConfidenceScore_client (calculateEvidenceMetrics_client as)
           = calculateConfidenceScore (calculateEvidenceMetrics as)"
  by (simp add: client_requirements_eq client_shouldUnlock_eq client_score_eq
      client_metrics_agree [OF assms])

theorem client_agrees_with_server_witness:
  "shouldUnlock_client (evaluateUnlockRequirements_client
     (calculateEvidenceMetrics_client three_observed_days))
   = shouldUnlock (evaluateUnlockRequirements (calculateEvidenceMetrics three_observed_days)) \<and>
   calculateConfidenceScore_client (calculateEvidenceMetrics_client three_observed_days)
   = calculateConfidenceScore (calculateEvidenceMetrics three_observed_days)"
proof -
  have "\<forall>a\<in>set three_observed_days. dateStr_client a = dateStr a"
    by (simp add: three_observed_days_def created_at_absent)
  from client_agrees_with_server [OF this] show ?thesis by blast
qed


section \<open>Missing-requirement messages, verified\<close>

lemma is_prefix_append: "is_prefix p (p @ ys)"
  by (induction p) simp_all

lemma contains_append: "contains (xs @ p @ ys) p"
proof (induction xs)
  case Nil
  show ?case by (cases "p @ ys") (use is_prefix_append [of p ys] in auto)
next
  case (Cons x xs)
  then show ?case by simp
qed

lemma days_message_states:
  "contains (days_message n) (string_of_count n)"
  "contains (days_message n) (string_of_count MIN_UNIQUE_DAYS)"
proof -
  show "contains (days_message n) (string_of_count n)"
    unfolding days_message_def by (rule contains_append)
  have "days_message n = (''Evidence spans only '' @ string_of_count n @ '' day(s). Need at least '')
          @ string_of_count MIN_UNIQUE_DAYS @ '' distinct days.''"
    by (simp add: days_message_def)
  then show "contains (days_message n) (string_of_count MIN_UNIQUE_DAYS)"
    by (simp only: contains_append)
qed

lemma sessions_message_states:
  "contains (sessions_message n) (string_of_count n)"
  "contains (sessions_message n) (string_of_count MIN_SESSIONS)"
proof -
  show "contains (sessions_message n) (string_of_count n)"
    unfolding sessions_message_def by (rule contains_append)
  have "sessions_message n = (''Only '' @ string_of_count n @ '' session(s) recorded. Need at least '')
          @ string_of_count MIN_SESSIONS @ '' sessions.''"
    by (simp add: sessions_message_def)
  then show "contains (sessions_message n) (string_of_count MIN_SESSIONS)"
    by (simp only: contains_append)
qed

lemma fixed_messages_no_digit:
  "\<not> has_digit observed_message" "\<not> has_digit growth_message" "\<not> has_digit consistency_message"
  by (simp_all add: has_digit_def is_digit_def observed_message_def growth_message_def
      consistency_message_def)

lemma client_missing_eq:
  "getMissingRequirements_client r mc = getMissingRequirements r (EvidenceMetrics.truncate mc)"
  unfolding getMissingRequirements_client_def getMissingRequirements_def truncate_fields ..

text \<open>
  Claim C8, as stated, fails in its second half: when only the observed-evidence
  requirement is unmet, the one message appended is a fixed sentence without any number.
\<close>

theorem observed_message_states_no_number:
  "getMissingRequirements only_observed_missing some_metrics = [observed_message] \<and>
   \<not> has_digit observed_message"
  by (simp add: getMissingRequirements_def only_observed_missing_def fixed_messages_no_digit)

text \<open>
  Claim C8, amended. The result is one message for each unmet requirement and none for a met
  one, in the order days, sessions, observed evidence, growth signal, consistency. The days
  and the sessions message state the current count and the threshold 3; the other three
  messages are fixed sentences that state no number. The client's copy returns the same.
\<close>

theorem missing_requirements_messages:
  "getMissingRequirements r m =
     (if multiple_days r then [] else [days_message (uniqueDays m)]) @
     (if multiple_sessions r then [] else [sessions_message (sessionCount m)]) @
     (if observed_evidence r then [] else [observed_message]) @
     (if growth_signal r then [] else [growth_message]) @
     (if consistency r then [] else [consistency_message]) \<and>
   getMissingRequirements_client r mc = getMissingRequirements r (EvidenceMetrics.truncate mc) \<and>
   contains (days_message n) (string_of_count n) \<and>
   contains (days_message n) (string_of_count MIN_UNIQUE_DAYS) \<and>
   contains (sessions_message n) (string_of_count n) \<and>
   contains (sessions_message n) (string_of_count MIN_SESSIONS) \<and>
   days_message n = ''Evidence spans only '' @ string_of_count n @
     '' day(s). Need at least 3 distinct days.'' \<and>
   sessions_message n = ''Only '' @ string_of_count n @
     '' session(s) recorded. Need at least 3 sessions.'' \<and>
   \<not> has_digit observed_message \<and> \<not> has_digit growth_message \<and>
   \<not> has_digit consistency_message"
proof -
  have "string_of_count 3 = ''3''"
    by (simp add: string_of_count.simps digit_char_def)
  then have "days_message n = ''Evidence spans only '' @ string_of_count n @
     '' day(s). Need at least 3 distinct days.''"
    and "sessions_message n = ''Only '' @ string_of_count n @
     '' session(s) recorded. Need at least 3 sessions.''"
    by (simp_all add: days_message_def sessions_message_def MIN_UNIQUE_DAYS_def MIN_SESSIONS_def)
  moreover have "getMissingRequirements r m =
     (if multiple_days r then [] else [days_message (uniqueDays m)]) @
     (if multiple_sessions r then [] else [sessions_message (sessionCount m)]) @
     (if observed_evidence r then [] else [observed_message]) @
     (if growth_signal r then [] else [growth_message]) @
     (if consistency r then [] else [consistency_message])"
    by (simp add: getMissingRequirements_def)
  ultimately show ?thesis
    using days_message_states [of n] sessions_message_states [of n] fixed_messages_no_digit
      client_missing_eq [of r mc]
    by blast
qed

section \<open>The handler, verified\<close>

lemma sorted_dates_eq: "sorted_dates l = sort (day_strings l)"
  by (simp add: sorted_dates_def day_strings_def)

lemma sorted_first_Min:
  fixes ys :: "'a::linorder list"
  assumes "sorted ys" "ys \<noteq> []"
  shows "ys ! 0 = Min (set ys)"
proof -
  obtain y rest where y: "ys = y # rest" using assms(2) by (cases ys) auto
  with assms(1) have "\<forall>z\<in>set ys. y \<le> z" by auto
  then have "Min (set ys) = y" using y by (intro Min_eqI) auto
  with y show ?thesis by simp
qed

lemma sorted_last_Max:
  fixes ys :: "'a::linorder list"
  assumes "sorted ys" "ys \<noteq> []"
  shows "ys ! (length ys - 1) = Max (set ys)"
proof -
  have n: "length ys - 1 < length ys" using assms(2) by (cases ys) auto
  have "\<forall>z\<in>set ys. z \<le> ys ! (length ys - 1)"
  proof
    fix z assume "z \<in> set ys"
    then obtain i where i: "i < length ys" "ys ! i = z" by (auto simp: in_set_conv_nth)
    then have "i \<le> length ys - 1" by simp
    with assms(1) n have "ys ! i \<le> ys ! (length ys - 1)" by (intro sorted_nth_mono) auto
    with i show "z \<le> ys ! (length ys - 1)" by simp
  qed
  moreover have "ys ! (length ys - 1) \<in> set ys" using n by (rule nth_mem)
  ultimately have "Max (set ys) = ys ! (length ys - 1)" by (intro Max_eqI) auto
  then show ?thesis by simp
qed

lemma timeSpan_range:
  assumes "2 \<le> card (set (day_strings l))"
  shows "timeSpan l = Min (set (day_strings l)) @ utf16 '' to '' @ Max (set (day_strings l))"
proof -
  let ?ds = "day_strings l"
  have len: "1 < length (sort ?ds)" using assms card_length [of ?ds] by simp
  have ne: "sort ?ds \<noteq> []"
  proof
    assume "sort ?ds = []"
    then have "length (sort ?ds) = 0" by (simp only: list.size)
    with len show False by simp
  qed
  have "sort ?ds ! 0 = Min (set ?ds)"
    using sorted_first_Min [of "sort ?ds"] ne by simp
  moreover have "sort ?ds ! (length (sort ?ds) - 1) = Max (set ?ds)"
    using sorted_last_Max [of "sort ?ds"] ne by simp
  ultimately show ?thesis
    using len by (simp add: timeSpan_def sorted_dates_eq Let_def)
qed

lemma serve_not_configured:
  "\<not> truthy_str key \<Longrightarrow>
     serve_generate_proof_card key content collaborator = (ServerError KeyNotConfigured, [])"
  by (simp add: serve_generate_proof_card_def)

lemma serve_locked:
  assumes "truthy_str key"
    and "\<not> shouldUnlock (evaluateUnlockRequirements
           (calculateEvidenceMetrics (activities_or_empty content)))"
  shows "serve_generate_proof_card key content collaborator =
           (Locked (lockedResponse (calculateEvidenceMetrics (activities_or_empty content))
              (evaluateUnlockRequirements
                (calculateEvidenceMetrics (activities_or_empty content)))), [])"
  using assms by (simp add: serve_generate_proof_card_def Let_def)

lemma serve_unlocked:
  assumes "truthy_str key"
    and "shouldUnlock (evaluateUnlockRequirements
           (calculateEvidenceMetrics (activities_or_empty content)))"
  shows "serve_generate_proof_card key content collaborator =
     (let activity_list = activities_or_empty content;
          metrics = calculateEvidenceMetrics activity_list;
          requirements = evaluateUnlockRequirements metrics;
          confidenceScore = calculateConfidenceScore metrics;
          confidenceLevel = getConfidenceLevel confidenceScore;
          spanText = timeSpan activity_list;
          prompt = make_prompt (the key) content metrics activity_list
      in (case collaborator prompt of
            FetchRejects \<Rightarrow> ServerError FetchFailed
          | NotOk \<Rightarrow> Unlocked (fallbackResponse content metrics requirements
                       confidenceScore confidenceLevel spanText)
          | BodyRejects \<Rightarrow> ServerError BodyUnreadable
          | ContentUnparseable \<Rightarrow> unlockedResponse (JObj []) content metrics requirements
                       confidenceScore confidenceLevel spanText
          | ContentParsed aiParsed \<Rightarrow> unlockedResponse aiParsed content metrics
                       requirements confidenceScore confidenceLevel spanText,
          [prompt]))"
  using assms by (simp add: serve_generate_proof_card_def Let_def)

lemma unlockedResponse_fields:
  assumes "unlockedResponse v content m r sc lv sp = Unlocked p"
  shows "requirements_met p = r" "confidence_score p = sc" "confidence_level p = lv"
    "growth_trend p = growth_trend_of m" "time_span p = sp" "session_count p = sessionCount m"
  using assms by (auto simp: unlockedResponse_def split: if_splits)

lemma fallbackResponse_fields:
  "requirements_met (fallbackResponse content m r sc lv sp) = r"
  "confidence_score (fallbackResponse content m r sc lv sp) = sc"
  "confidence_level (fallbackResponse content m r sc lv sp) = lv"
  "growth_trend (fallbackResponse content m r sc lv sp) = growth_trend_of m"
  "time_span (fallbackResponse content m r sc lv sp) = sp"
  "session_count (fallbackResponse content m r sc lv sp) = sessionCount m"
  by (simp_all add: fallbackResponse_def)

text \<open>Whatever the collaborator does, an unlocked response carries the computed fields.\<close>

lemma serve_Unlocked_fields:
  assumes "fst (serve_generate_proof_card key content collaborator) = Unlocked p"
  shows "truthy_str key"
    and "shouldUnlock (evaluateUnlockRequirements
           (calculateEvidenceMetrics (activities_or_empty content)))"
    and "requirements_met p =
           evaluateUnlockRequirements (calculateEvidenceMetrics (activities_or_empty content))"
    and "confidence_score p =
           calculateConfidenceScore (calculateEvidenceMetrics (activities_or_empty content))"
    and "confidence_level p = getConfidenceLevel (calculateConfidenceScore
           (calculateEvidenceMetrics (activities_or_empty content)))"
    and "growth_trend p = growth_trend_of (calculateEvidenceMetrics (activities_or_empty content))"
    and "time_span p = timeSpan (activities_or_empty content)"
proof -
  show k: "truthy_str key"
    using assms by (cases "truthy_str key") (simp_all add: serve_not_configured)
  show u: "shouldUnlock (evaluateUnlockRequirements
           (calculateEvidenceMetrics (activities_or_empty content)))"
    using assms k serve_locked [of key content collaborator] by (cases "shouldUnlock (evaluateUnlockRequirements
           (calculateEvidenceMetrics (activities_or_empty content)))") simp_all
  note s = serve_unlocked [OF k u, of collaborator]
  show "requirements_met p =
           evaluateUnlockRequirements (calculateEvidenceMetrics (activities_or_empty content))"
    using assms unfolding s Let_def
    by (auto split: ai_reply.splits simp: fallbackResponse_fields dest: unlockedResponse_fields)
  show "confidence_score p =
           calculateConfidenceScore (calculateEvidenceMetrics (activities_or_empty content))"
    using assms unfolding s Let_def
    by (auto split: ai_reply.splits simp: fallbackResponse_fields dest: unlockedResponse_fields)
  show "confidence_level p = getConfidenceLevel (calculateConfidenceScore
           (calculateEvidenceMetrics (activities_or_empty content)))"
    using assms unfolding s Let_def
    by (auto split: ai_reply.splits simp: fallbackResponse_fields dest: unlockedResponse_fields)
  show "growth_trend p = growth_trend_of (calculateEvidenceMetrics (activities_or_empty content))"
    using assms unfolding s Let_def
    by (auto split: ai_reply.splits simp: fallbackResponse_fields dest: unlockedResponse_fields)
  show "time_span p = timeSpan (activities_or_empty content)"
    using assms unfolding s Let_def
    by (auto split: ai_reply.splits simp: fallbackResponse_fields dest: unlockedResponse_fields)
qed

text \<open>
  Collaborators cannot change a payload: two unlocked responses to the same request carry
  the same requirements, score, level and trend.
\<close>

lemma unlocked_fields_independent:
  assumes "fst (serve_generate_proof_card key content c1) = Unlocked p1"
    and "fst (serve_generate_proof_card key content c2) = Unlocked p2"
  shows "requirements_met p1 = requirements_met p2 \<and> confidence_score p1 = confidence_score p2 \<and>
         confidence_level p1 = confidence_level p2 \<and> growth_trend p1 = growth_trend p2"
  using serve_Unlocked_fields(3-6) [OF assms(1)] serve_Unlocked_fields(3-6) [OF assms(2)]
  by simp

lemma unlockable_request_unlocks:
  "shouldUnlock (evaluateUnlockRequirements
     (calculateEvidenceMetrics (activities_or_empty unlockable_request)))"
  by (simp add: activities_or_empty_def unlockable_request_def three_observed_days_metrics
      shouldUnlock_def evaluateUnlockRequirements_def MIN_UNIQUE_DAYS_def MIN_SESSIONS_def)

lemma empty_request_locks:
  "\<not> shouldUnlock (evaluateUnlockRequirements
     (calculateEvidenceMetrics (activities_or_empty empty_request)))"
  by (simp add: activities_or_empty_def empty_request_def calculateEvidenceMetrics_def
      shouldUnlock_def evaluateUnlockRequirements_def MIN_UNIQUE_DAYS_def MIN_SESSIONS_def
      agg_init_def)

lemma key_truthy: "truthy_str (Some ''secret'')"
  by (simp add: truthy_str_def)

lemma serve_failing_collaborator:
  "fst (serve_generate_proof_card (Some ''secret'') unlockable_request failing_collaborator) =
     Unlocked (fallbackResponse unlockable_request
       (calculateEvidenceMetrics three_observed_days)
       (evaluateUnlockRequirements (calculateEvidenceMetrics three_observed_days))
       (calculateConfidenceScore (calculateEvidenceMetrics three_observed_days))
       (getConfidenceLevel (calculateConfidenceScore (calculateEvidenceMetrics three_observed_days)))
       (timeSpan three_observed_days))"
  unfolding serve_unlocked [OF key_truthy unlockable_request_unlocks]
  by (simp add: Let_def failing_collaborator_def activities_or_empty_def unlockable_request_def)

lemma requests_activities:
  "activities_or_empty unlockable_request = three_observed_days"
  "activities_or_empty empty_request = []"
  by (simp_all add: activities_or_empty_def unlockable_request_def empty_request_def)

subsection \<open>Dates and day strings\<close>

lemma unit_values:
  "code_unit_of CHR ''0'' = 48" "code_unit_of CHR ''9'' = 57"
  "code_unit_of CHR ''-'' = 45" "code_unit_of CHR ''T'' = 84"
  by (simp_all add: code_unit_of_def)

lemma digit_unit_bounds: "is_digit_unit c \<Longrightarrow> 48 \<le> unat c \<and> unat c \<le> 57"
  by (simp add: is_digit_unit_def unit_values word_le_nat_alt)

lemma digit_val_less_10: "is_digit_unit c \<Longrightarrow> digit_val c < 10"
  using digit_unit_bounds [of c] by (simp add: digit_val_def unit_values) arith

lemma digit_unit_digit_val: "is_digit_unit c \<Longrightarrow> digit_unit (digit_val c) = c"
  using digit_unit_bounds [of c] by (simp add: digit_unit_def digit_val_def unit_values)

lemma digit_not_T: "is_digit_unit c \<Longrightarrow> c \<noteq> code_unit_of CHR ''T''"
  using digit_unit_bounds [of c] by (auto simp: unit_values)

lemma digit_compare:
  assumes "is_digit_unit c" "is_digit_unit c'"
  shows "(c < c') = (digit_val c < digit_val c')"
    and "(c = c') = (digit_val c = digit_val c')"
    and "(c \<le> c') = (digit_val c \<le> digit_val c')"
  using digit_unit_bounds [OF assms(1)] digit_unit_bounds [OF assms(2)]
  by (auto simp: digit_val_def unit_values word_less_nat_alt word_le_nat_alt word_unat_eq_iff)

lemma parse_date_SomeE:
  assumes "parse_date s = Some dd"
  obtains y1 y2 y3 y4 m1 m2 d1 d2 rest where
    "s = y1 # y2 # y3 # y4 # code_unit_of CHR ''-'' # m1 # m2 # code_unit_of CHR ''-'' # d1 # d2 # rest"
    "is_digit_unit y1" "is_digit_unit y2" "is_digit_unit y3" "is_digit_unit y4"
    "is_digit_unit m1" "is_digit_unit m2" "is_digit_unit d1" "is_digit_unit d2"
    "rest = [] \<or> hd rest = code_unit_of CHR ''T''"
    "dd = (1000 * digit_val y1 + 100 * digit_val y2 + 10 * digit_val y3 + digit_val y4,
           10 * digit_val m1 + digit_val m2, 10 * digit_val d1 + digit_val d2)"
  using assms by (cases s rule: parse_date.cases) (auto simp: Let_def split: if_splits)


lemma radix_less:
  fixes B :: nat
  assumes "r < B" "r' < B"
  shows "(B * a + r < B * a' + r') = (a < a' \<or> a = a' \<and> r < r')"
proof (cases a a' rule: linorder_cases)
  case less
  then have "B * (a + 1) \<le> B * a'" by (intro mult_le_mono2) simp
  then have "B * a + B \<le> B * a'" by (simp add: distrib_left)
  with assms less show ?thesis by simp
next
  case equal
  then show ?thesis by simp
next
  case greater
  then have "B * (a' + 1) \<le> B * a" by (intro mult_le_mono2) simp
  then have "B * a' + B \<le> B * a" by (simp add: distrib_left)
  with assms greater show ?thesis by simp
qed

lemma radix_eq:
  fixes B :: nat
  assumes "r < B" "r' < B"
  shows "(B * a + r = B * a' + r') = (a = a' \<and> r = r')"
proof -
  have "\<not> B * a + r < B * a' + r' \<and> \<not> B * a' + r' < B * a + r \<longleftrightarrow> a = a' \<and> r = r'"
    unfolding radix_less [OF assms] radix_less [OF assms(2,1)] by auto
  then show ?thesis by auto
qed

lemma radix_div:
  fixes B :: nat
  assumes "r < B"
  shows "(B * a + r) div B = a" and "(B * a + r) mod B = r"
  using assms by simp_all

lemma digits4_div:
  assumes "a < 10" "b < 10" "c < 10" "e < (10::nat)"
  shows "(1000 * a + 100 * b + 10 * c + e) div 1000 = a"
    and "(1000 * a + 100 * b + 10 * c + e) div 100 mod 10 = b"
    and "(1000 * a + 100 * b + 10 * c + e) div 10 mod 10 = c"
    and "(1000 * a + 100 * b + 10 * c + e) mod 10 = e"
proof -
  have r3: "100 * b + 10 * c + e < 1000" using assms by linarith
  have r2: "10 * c + e < 100" using assms by linarith
  have "1000 * a + 100 * b + 10 * c + e = 1000 * a + (100 * b + 10 * c + e)" by simp
  then show "(1000 * a + 100 * b + 10 * c + e) div 1000 = a"
    using radix_div(1) [OF r3, of a] by simp
  have "1000 * a + 100 * b + 10 * c + e = 100 * (10 * a + b) + (10 * c + e)" by simp
  then have "(1000 * a + 100 * b + 10 * c + e) div 100 = 10 * a + b"
    using radix_div(1) [OF r2, of "10 * a + b"] by simp
  then show "(1000 * a + 100 * b + 10 * c + e) div 100 mod 10 = b"
    using radix_div(2) [OF assms(2), of a] by simp
  have "1000 * a + 100 * b + 10 * c + e = 10 * (100 * a + 10 * b + c) + e" by simp
  then have d: "(1000 * a + 100 * b + 10 * c + e) div 10 = 100 * a + 10 * b + c"
    and m: "(1000 * a + 100 * b + 10 * c + e) mod 10 = e"
    using radix_div [OF assms(4), of "100 * a + 10 * b + c"] by simp_all
  show "(1000 * a + 100 * b + 10 * c + e) mod 10 = e" by (rule m)
  have "100 * a + 10 * b + c = 10 * (10 * a + b) + c" by simp
  then show "(1000 * a + 100 * b + 10 * c + e) div 10 mod 10 = c"
    unfolding d using radix_div(2) [OF assms(3), of "10 * a + b"] by simp
qed

lemma digits2_div:
  assumes "b < (10::nat)"
  shows "(10 * a + b) div 10 = a" and "(10 * a + b) mod 10 = b"
  using assms by simp_all

lemma lex4:
  assumes "b < 10" "c < 10" "e < 10" "b' < 10" "c' < 10" "e' < (10::nat)"
  shows "(1000 * a + 100 * b + 10 * c + e < 1000 * a' + 100 * b' + 10 * c' + e')
          = (a < a' \<or> a = a' \<and> (b < b' \<or> b = b' \<and> (c < c' \<or> c = c' \<and> e < e')))"
    and "(1000 * a + 100 * b + 10 * c + e = 1000 * a' + 100 * b' + 10 * c' + e')
          = (a = a' \<and> b = b' \<and> c = c' \<and> e = e')"
proof -
  have r2: "10 * c + e < 100" "10 * c' + e' < 100" using assms by linarith+
  have r3: "100 * b + (10 * c + e) < 1000" "100 * b' + (10 * c' + e') < 1000"
    using assms by linarith+
  show "(1000 * a + 100 * b + 10 * c + e < 1000 * a' + 100 * b' + 10 * c' + e')
          = (a < a' \<or> a = a' \<and> (b < b' \<or> b = b' \<and> (c < c' \<or> c = c' \<and> e < e')))"
    unfolding add.assoc radix_less [OF r3] radix_less [OF r2] radix_eq [OF r2]
      radix_less [OF assms(3,6)] ..
  show "(1000 * a + 100 * b + 10 * c + e = 1000 * a' + 100 * b' + 10 * c' + e')
          = (a = a' \<and> b = b' \<and> c = c' \<and> e = e')"
    unfolding add.assoc radix_eq [OF r3] radix_eq [OF r2] radix_eq [OF assms(3,6)] ..
qed


lemma parse_date_format:
  assumes "parse_date s = Some dd"
  shows "format_day dd = take 10 s" and "split_T_first s = take 10 s"
proof -
  from assms obtain y1 y2 y3 y4 m1 m2 d1 d2 rest where
    s: "s = y1 # y2 # y3 # y4 # code_unit_of CHR ''-'' # m1 # m2 # code_unit_of CHR ''-'' # d1 # d2 # rest"
    and dg: "is_digit_unit y1" "is_digit_unit y2" "is_digit_unit y3" "is_digit_unit y4"
    "is_digit_unit m1" "is_digit_unit m2" "is_digit_unit d1" "is_digit_unit d2"
    and rest: "rest = [] \<or> hd rest = code_unit_of CHR ''T''"
    and dd: "dd = (1000 * digit_val y1 + 100 * digit_val y2 + 10 * digit_val y3 + digit_val y4,
           10 * digit_val m1 + digit_val m2, 10 * digit_val d1 + digit_val d2)"
    by (rule parse_date_SomeE)
  note lt = dg [THEN digit_val_less_10]
  show "format_day dd = take 10 s"
    unfolding dd s
    by (simp add: digits4_div [OF lt(1-4)] digits2_div [OF lt(6)] digits2_div [OF lt(8)]
        digit_unit_digit_val dg lt)
  have "takeWhile (\<lambda>c. c \<noteq> code_unit_of CHR ''T'') rest = []"
    using rest by (cases rest) auto
  then show "split_T_first s = take 10 s"
    unfolding s split_T_first_def using dg [THEN digit_not_T]
    by (simp add: unit_values)
qed

lemma parse_date_order:
  assumes "parse_date s = Some dd" "parse_date s' = Some dd'"
  shows "(take 10 s \<le> take 10 s') = (dd \<le> dd')"
proof -
  from assms(1) obtain y1 y2 y3 y4 m1 m2 d1 d2 rest where
    s: "s = y1 # y2 # y3 # y4 # code_unit_of CHR ''-'' # m1 # m2 # code_unit_of CHR ''-'' # d1 # d2 # rest"
    and dg: "is_digit_unit y1" "is_digit_unit y2" "is_digit_unit y3" "is_digit_unit y4"
    "is_digit_unit m1" "is_digit_unit m2" "is_digit_unit d1" "is_digit_unit d2"
    and dd: "dd = (1000 * digit_val y1 + 100 * digit_val y2 + 10 * digit_val y3 + digit_val y4,
           10 * digit_val m1 + digit_val m2, 10 * digit_val d1 + digit_val d2)"
    by (rule parse_date_SomeE)
  from assms(2) obtain z1 z2 z3 z4 n1 n2 e1 e2 rest' where
    s': "s' = z1 # z2 # z3 # z4 # code_unit_of CHR ''-'' # n1 # n2 # code_unit_of CHR ''-'' # e1 # e2 # rest'"
    and dg': "is_digit_unit z1" "is_digit_unit z2" "is_digit_unit z3" "is_digit_unit z4"
    "is_digit_unit n1" "is_digit_unit n2" "is_digit_unit e1" "is_digit_unit e2"
    and dd': "dd' = (1000 * digit_val z1 + 100 * digit_val z2 + 10 * digit_val z3 + digit_val z4,
           10 * digit_val n1 + digit_val n2, 10 * digit_val e1 + digit_val e2)"
    by (rule parse_date_SomeE)
  note lt = dg [THEN digit_val_less_10]
  note lt' = dg' [THEN digit_val_less_10]
  let ?Y = "1000 * digit_val y1 + 100 * digit_val y2 + 10 * digit_val y3 + digit_val y4"
  let ?Z = "1000 * digit_val z1 + 100 * digit_val z2 + 10 * digit_val z3 + digit_val z4"
  let ?M = "10 * digit_val m1 + digit_val m2"
  let ?N = "10 * digit_val n1 + digit_val n2"
  let ?D = "10 * digit_val d1 + digit_val d2"
  let ?E = "10 * digit_val e1 + digit_val e2"
  note y = lex4 [OF lt(2-4) lt'(2-4), of "digit_val y1" "digit_val z1"]
  note m = radix_less [OF lt(6) lt'(6), of "digit_val m1" "digit_val n1"]
    radix_eq [OF lt(6) lt'(6), of "digit_val m1" "digit_val n1"]
  note d = radix_less [OF lt(8) lt'(8), of "digit_val d1" "digit_val e1"]
    radix_eq [OF lt(8) lt'(8), of "digit_val d1" "digit_val e1"]
  have "(take 10 s \<le> take 10 s') =
        (y1 < z1 \<or> y1 = z1 \<and> (y2 < z2 \<or> y2 = z2 \<and> (y3 < z3 \<or> y3 = z3 \<and> (y4 < z4 \<or> y4 = z4 \<and>
         (m1 < n1 \<or> m1 = n1 \<and> (m2 < n2 \<or> m2 = n2 \<and>
         (d1 < e1 \<or> d1 = e1 \<and> (d2 < e2 \<or> d2 = e2))))))))"
    unfolding s s' by (simp add: less_le)
  also have "\<dots> = (?Y < ?Z \<or> ?Y = ?Z \<and> (?M < ?N \<or> ?M = ?N \<and> (?D < ?E \<or> ?D = ?E)))"
    unfolding y m d
      digit_compare(1,2) [OF dg(1) dg'(1)] digit_compare(1,2) [OF dg(2) dg'(2)]
      digit_compare(1,2) [OF dg(3) dg'(3)] digit_compare(1,2) [OF dg(4) dg'(4)]
      digit_compare(1,2) [OF dg(5) dg'(5)] digit_compare(1,2) [OF dg(6) dg'(6)]
      digit_compare(1,2) [OF dg(7) dg'(7)] digit_compare(1,2) [OF dg(8) dg'(8)]
    by blast
  also have "\<dots> = (dd \<le> dd')"
    unfolding dd dd' less_eq_prod_simp by auto
  finally show ?thesis .
qed


lemma parse_date_day_string:
  assumes "parse_date s = Some dd"
  shows "split_T_first s = format_day dd" and "split_T_first s \<noteq> []"
proof -
  show e: "split_T_first s = format_day dd"
    using parse_date_format [OF assms] by simp
  show "split_T_first s \<noteq> []"
    unfolding e by (cases dd) simp
qed

lemma parsed_days_Cons:
  "parsed_days (a # l) =
     (case date a of
        None \<Rightarrow> parsed_days l
      | Some s \<Rightarrow> (case parse_date s of None \<Rightarrow> parsed_days l | Some dd \<Rightarrow> dd # parsed_days l))"
  by (simp add: parsed_days_def map_filter_simps split: option.split)

lemma parsed_days_Nil: "parsed_days [] = []"
  by (simp add: parsed_days_def map_filter_simps)

lemma day_strings_parsed:
  "dates_parseable l \<Longrightarrow> day_strings l = map format_day (parsed_days l)"
proof (induction l)
  case Nil
  show ?case by (simp add: day_strings_def parsed_days_Nil)
next
  case (Cons a l)
  from Cons.prems have rest: "dates_parseable l"
    and here: "case date a of None \<Rightarrow> True
               | Some s \<Rightarrow> split_T_first s = [] \<or> parse_date s \<noteq> None"
    by (simp_all add: dates_parseable_def)
  note IH = Cons.IH [OF rest]
  show ?case
  proof (cases "date a")
    case None
    then show ?thesis
      using IH by (simp add: day_strings_Cons parsed_days_Cons dateStr_def truthy_str_def)
  next
    case (Some s)
    show ?thesis
    proof (cases "parse_date s")
      case None
      with here Some have "split_T_first s = []" by simp
      then show ?thesis
        using IH Some None
        by (simp add: day_strings_Cons parsed_days_Cons dateStr_def truthy_str_def)
    next
      case (Some dd)
      note p = parse_date_day_string [OF Some]
      show ?thesis
        using IH \<open>date a = Some s\<close> Some p
        by (simp add: day_strings_Cons parsed_days_Cons dateStr_def truthy_str_def)
    qed
  qed
qed

lemma parsed_days_source:
  assumes "dd \<in> set (parsed_days l)"
  shows "\<exists>s. parse_date s = Some dd"
  using assms
  by (induction l) (auto simp: parsed_days_Nil parsed_days_Cons split: option.splits)

lemma format_day_order:
  assumes "dd \<in> set (parsed_days l)" "dd' \<in> set (parsed_days l)"
  shows "(format_day dd \<le> format_day dd') = (dd \<le> dd')"
proof -
  from assms obtain s s' where p: "parse_date s = Some dd" "parse_date s' = Some dd'"
    using parsed_days_source by blast
  show ?thesis
    using parse_date_order [OF p] parse_date_format(1) [OF p(1)] parse_date_format(1) [OF p(2)]
    by simp
qed

lemma format_day_Min:
  assumes "parsed_days l \<noteq> []"
  shows "Min (format_day ` set (parsed_days l)) = format_day (Min (set (parsed_days l)))"
proof (rule Min_eqI)
  let ?S = "set (parsed_days l)"
  have ne: "?S \<noteq> {}" using assms by simp
  show "finite (format_day ` ?S)" by simp
  have m: "Min ?S \<in> ?S" using ne by (intro Min_in) simp_all
  then show "format_day (Min ?S) \<in> format_day ` ?S" by (rule imageI)
  fix y assume "y \<in> format_day ` ?S"
  then obtain dd where dd: "dd \<in> ?S" "y = format_day dd" by auto
  then have "Min ?S \<le> dd" by (intro Min_le) simp_all
  then show "format_day (Min ?S) \<le> y"
    using format_day_order [OF m dd(1)] dd(2) by simp
qed

lemma format_day_Max:
  assumes "parsed_days l \<noteq> []"
  shows "Max (format_day ` set (parsed_days l)) = format_day (Max (set (parsed_days l)))"
proof (rule Max_eqI)
  let ?S = "set (parsed_days l)"
  have ne: "?S \<noteq> {}" using assms by simp
  show "finite (format_day ` ?S)" by simp
  have m: "Max ?S \<in> ?S" using ne by (intro Max_in) simp_all
  then show "format_day (Max ?S) \<in> format_day ` ?S" by (rule imageI)
  fix y assume "y \<in> format_day ` ?S"
  then obtain dd where dd: "dd \<in> ?S" "y = format_day dd" by auto
  then have "dd \<le> Max ?S" by (intro Max_ge) simp_all
  then show "y \<le> format_day (Max ?S)"
    using format_day_order [OF dd(1) m] dd(2) by simp
qed

lemma time_span_spec_range:
  assumes "dates_parseable l" "2 \<le> card (set (day_strings l))"
  shows "time_span_spec l =
           Min (set (day_strings l)) @ utf16 '' to '' @ Max (set (day_strings l))"
proof -
  let ?ds = "parsed_days l"
  have img: "set (day_strings l) = format_day ` set ?ds"
    using day_strings_parsed [OF assms(1)] by simp
  have "card (format_day ` set ?ds) \<le> card (set ?ds)" by (intro card_image_le) simp
  with assms(2) img have "2 \<le> card (set ?ds)" by simp
  then have len: "2 \<le> length (remdups ?ds)" by (simp add: length_remdups_card_conv)
  then obtain d e rest where r: "remdups ?ds = d # e # rest"
    by (cases "remdups ?ds"; cases "tl (remdups ?ds)") auto
  have ne: "?ds \<noteq> []" using len by auto
  have st: "set (d # e # rest) = set ?ds" using r by (metis set_remdups)
  have "fold min (e # rest) d = Min (set (d # e # rest))"
    by (simp only: Min.set_eq_fold)
  then have mn: "fold min (e # rest) d = Min (set ?ds)" using st by (simp only:)
  have "fold max (e # rest) d = Max (set (d # e # rest))"
    by (simp only: Max.set_eq_fold)
  then have mx: "fold max (e # rest) d = Max (set ?ds)" using st by (simp only:)
  have "time_span_spec l =
          format_day (Min (set ?ds)) @ utf16 '' to '' @ format_day (Max (set ?ds))"
    unfolding time_span_spec_def r by (simp only: list.case mn mx)
  then show ?thesis
    unfolding img format_day_Min [OF ne] format_day_Max [OF ne] .
qed

lemma odd_dates_metrics:
  "calculateEvidenceMetrics odd_dates =
     \<lparr>uniqueDays = 3, sessionCount = 3, hasObservedEvidence = True, observedSessionCount = 2,
      hasErrorCorrectionCycles = False, activityTypes = [''code'']\<rparr>"
  by (simp add: odd_dates_def calculateEvidenceMetrics_def agg_step_def agg_init_def
      Let_def truthy_str_def dateStr_def split_T_first_def set_add_def isObserved_def has_cycles_def
      utf16_def code_unit_of_def)

lemma odd_request_unlocks:
  "shouldUnlock (evaluateUnlockRequirements
     (calculateEvidenceMetrics (activities_or_empty odd_request)))"
  by (simp add: activities_or_empty_def odd_request_def odd_dates_metrics
      shouldUnlock_def evaluateUnlockRequirements_def MIN_UNIQUE_DAYS_def MIN_SESSIONS_def)

text \<open>
  Claim C9, as stated, fails: the handler never parses a date. Three sessions dated
  \<open>foo\<close>, \<open>bar\<close> and \<open>baz\<close> unlock, and the payload's \<open>time_span\<close> is \<open>bar to foo\<close>, where
  the claim gives \<open>Recent\<close> because no date can be parsed.
\<close>

theorem time_span_of_unparseable_dates:
  "fst (serve_generate_proof_card (Some ''secret'') odd_request failing_collaborator) =
     Unlocked (fallbackResponse odd_request
       (calculateEvidenceMetrics odd_dates)
       (evaluateUnlockRequirements (calculateEvidenceMetrics odd_dates))
       (calculateConfidenceScore (calculateEvidenceMetrics odd_dates))
       (getConfidenceLevel (calculateConfidenceScore (calculateEvidenceMetrics odd_dates)))
       (timeSpan odd_dates)) \<and>
   timeSpan odd_dates = utf16 ''bar to foo'' \<and>
   time_span_spec odd_dates = utf16 ''Recent'' \<and>
   timeSpan odd_dates \<noteq> time_span_spec odd_dates"
proof -
  have r: "fst (serve_generate_proof_card (Some ''secret'') odd_request failing_collaborator) =
     Unlocked (fallbackResponse odd_request
       (calculateEvidenceMetrics odd_dates)
       (evaluateUnlockRequirements (calculateEvidenceMetrics odd_dates))
       (calculateConfidenceScore (calculateEvidenceMetrics odd_dates))
       (getConfidenceLevel (calculateConfidenceScore (calculateEvidenceMetrics odd_dates)))
       (timeSpan odd_dates))"
    unfolding serve_unlocked [OF key_truthy odd_request_unlocks]
    by (simp add: Let_def failing_collaborator_def activities_or_empty_def odd_request_def)
  have c: "timeSpan odd_dates = utf16 ''bar to foo''"
    by (simp add: timeSpan_def sorted_dates_def odd_dates_def dateStr_def truthy_str_def
        split_T_first_def Let_def utf16_def code_unit_of_def)
  have sp: "time_span_spec odd_dates = utf16 ''Recent''"
    by (simp add: time_span_spec_def parsed_days_def map_filter_simps odd_dates_def utf16_def
        code_unit_of_def)
  have "utf16 ''bar to foo'' \<noteq> utf16 ''Recent''"
    by (simp add: utf16_def code_unit_of_def)
  with r c sp show ?thesis by simp
qed

text \<open>
  Claim C9, amended. In every unlocked payload \<open>time_span\<close> is the least and the greatest
  day string joined by \<open>to\<close>, a day string being the non-empty text before the first \<open>T\<close>
  of an activity's date and the order that of UTF-16 code units; there are at least three
  distinct day strings, so the single-date and the \<open>Recent\<close> form do not occur. When every
  such date is an ISO 8601 date, this is the earliest and the latest date, as the
  specification describes.
\<close>

theorem unlocked_time_span_range:
  assumes "fst (serve_generate_proof_card key content collaborator) = Unlocked p"
  shows "3 \<le> card (set (day_strings (activities_or_empty content))) \<and>
         time_span p = Min (set (day_strings (activities_or_empty content))) @ utf16 '' to '' @
                       Max (set (day_strings (activities_or_empty content))) \<and>
         (dates_parseable (activities_or_empty content) \<longrightarrow>
            time_span p = time_span_spec (activities_or_empty content))"
proof -
  let ?l = "activities_or_empty content"
  have "3 \<le> uniqueDays (calculateEvidenceMetrics ?l)"
    using serve_Unlocked_fields(2) [OF assms] by (simp add: shouldUnlock_def requirements_fields)
  then have c3: "3 \<le> card (set (day_strings ?l))" by (simp add: metrics_fields)
  then have c: "2 \<le> card (set (day_strings ?l))" by simp
  have t: "time_span p = Min (set (day_strings ?l)) @ utf16 '' to '' @ Max (set (day_strings ?l))"
    using serve_Unlocked_fields(7) [OF assms] timeSpan_range [OF c] by simp
  have "time_span p = time_span_spec ?l" if "dates_parseable ?l"
    using t time_span_spec_range [OF that c] by simp
  with c3 t show ?thesis by blast
qed

lemma three_observed_days_parseable: "dates_parseable three_observed_days"
  by (simp add: dates_parseable_def three_observed_days_def utf16_def code_unit_of_def
      is_digit_unit_def digit_val_def Let_def)

lemma three_observed_days_span:
  "timeSpan three_observed_days = utf16 ''2024-01-01 to 2024-01-03''"
  by (simp add: timeSpan_def sorted_dates_def three_observed_days_def dateStr_def
      truthy_str_def split_T_first_def Let_def utf16_def code_unit_of_def)

theorem unlocked_time_span_range_witness:
  "time_span_spec three_observed_days = utf16 ''2024-01-01 to 2024-01-03'' \<and>
   time_span (fallbackResponse unlockable_request
       (calculateEvidenceMetrics three_observed_days)
       (evaluateUnlockRequirements (calculateEvidenceMetrics three_observed_days))
       (calculateConfidenceScore (calculateEvidenceMetrics three_observed_days))
       (getConfidenceLevel (calculateConfidenceScore (calculateEvidenceMetrics three_observed_days)))
       (timeSpan three_observed_days)) = time_span_spec three_observed_days"
proof -
  let ?p = "fallbackResponse unlockable_request
       (calculateEvidenceMetrics three_observed_days)
       (evaluateUnlockRequirements (calculateEvidenceMetrics three_observed_days))
       (calculateConfidenceScore (calculateEvidenceMetrics three_observed_days))
       (getConfidenceLevel (calculateConfidenceScore (calculateEvidenceMetrics three_observed_days)))
       (timeSpan three_observed_days)"
  have "dates_parseable (activities_or_empty unlockable_request) \<longrightarrow>
          time_span ?p = time_span_spec (activities_or_empty unlockable_request)"
    using unlocked_time_span_range [OF serve_failing_collaborator] by blast
  then have e: "time_span ?p = time_span_spec three_observed_days"
    using three_observed_days_parseable by (simp only: requests_activities)
  have "time_span ?p = utf16 ''2024-01-01 to 2024-01-03''"
    by (simp only: fallbackResponse_fields three_observed_days_span)
  with e show ?thesis by simp
qed

text \<open>
  Outside unlocked payloads the computation differs from the description in one more case:
  two sessions on the same day give a range from that day to itself, not the single day.
\<close>

lemma timeSpan_same_day_twice:
  "timeSpan same_day_twice = utf16 ''2024-01-01 to 2024-01-01'' \<and>
   time_span_spec same_day_twice = utf16 ''2024-01-01''"
  by (simp add: timeSpan_def time_span_spec_def sorted_dates_def parsed_days_def map_filter_simps
      same_day_twice_def dateStr_def truthy_str_def split_T_first_def Let_def utf16_def
      code_unit_of_def is_digit_unit_def digit_val_def digit_unit_def)

subsection \<open>Failures of the collaborator\<close>

text \<open>
  The failures the handler recovers from. With the key configured and metrics that unlock,
  a collaborator that answers with a failure status, or whose content does not parse, or
  parses to \<open>{}\<close>, still yields an unlocked payload: its \<open>evidence_summary\<close> is the non-empty
  template built from the session count, the skill name and the day count, its
  \<open>confidence_score\<close> is the computed score, and its requirements are the evaluated ones.
\<close>

lemma fallback_payload:
  assumes "truthy_str key"
    and "shouldUnlock (evaluateUnlockRequirements
           (calculateEvidenceMetrics (activities_or_empty content)))"
    and "prompt = make_prompt (the key) content
           (calculateEvidenceMetrics (activities_or_empty content)) (activities_or_empty content)"
    and "collaborator prompt = NotOk \<or> collaborator prompt = ContentUnparseable \<or>
         collaborator prompt = ContentParsed (JObj [])"
  shows "\<exists>p. fst (serve_generate_proof_card key content collaborator) = Unlocked p \<and>
           evidence_summary p = JStr (''Observed '' @
             string_of_count (sessionCount (calculateEvidenceMetrics (activities_or_empty content))) @
             '' learning sessions for '' @ skill_name content @ '' across '' @
             string_of_count (uniqueDays (calculateEvidenceMetrics (activities_or_empty content))) @
             (if collaborator prompt = NotOk then '' days with process evidence.''
              else '' days.'')) \<and>
           evidence_summary p \<noteq> JStr [] \<and>
           confidence_score p =
             calculateConfidenceScore (calculateEvidenceMetrics (activities_or_empty content)) \<and>
           confidence_level p = getConfidenceLevel (calculateConfidenceScore
             (calculateEvidenceMetrics (activities_or_empty content))) \<and>
           requirements_met p =
             evaluateUnlockRequirements (calculateEvidenceMetrics (activities_or_empty content)) \<and>
           shouldUnlock (requirements_met p)"
proof -
  note s = serve_unlocked [OF assms(1,2), of collaborator]
  from assms(4) show ?thesis
  proof (elim disjE)
    assume "collaborator prompt = NotOk"
    with assms(2) show ?thesis
      unfolding s Let_def assms(3) by (simp add: fallbackResponse_def)
  next
    assume "collaborator prompt = ContentUnparseable"
    with assms(2) show ?thesis
      unfolding s Let_def assms(3) by (simp add: unlockedResponse_def or_default_def)
  next
    assume "collaborator prompt = ContentParsed (JObj [])"
    with assms(2) show ?thesis
      unfolding s Let_def assms(3) by (simp add: unlockedResponse_def or_default_def)
  qed
qed

lemma string_of_count_3: "string_of_count 3 = ''3''"
  by (simp add: string_of_count.simps digit_char_def)

lemma fallback_payload_example:
  "\<exists>p. fst (serve_generate_proof_card (Some ''secret'') unlockable_request
            unparseable_collaborator) = Unlocked p \<and>
       evidence_summary p = JStr ''Observed 3 learning sessions for Python across 3 days.'' \<and>
       confidence_score p = 4953959590107545 / 9007199254740992 \<and>
       shouldUnlock (requirements_met p)"
proof -
  let ?prompt = "make_prompt (the (Some ''secret'')) unlockable_request
        (calculateEvidenceMetrics (activities_or_empty unlockable_request))
        (activities_or_empty unlockable_request)"
  have d: "unparseable_collaborator ?prompt = NotOk \<or>
           unparseable_collaborator ?prompt = ContentUnparseable \<or>
           unparseable_collaborator ?prompt = ContentParsed (JObj [])"
    by (simp add: unparseable_collaborator_def)
  have v: "calculateConfidenceScore (calculateEvidenceMetrics three_observed_days)
             = 4953959590107545 / 9007199254740992"
    unfolding three_observed_days_metrics by (simp add: unlocked_score_value)
  have n: "skill_name unlockable_request = ''Python''"
    by (simp add: unlockable_request_def)
  from fallback_payload [where key = "Some ''secret''" and content = unlockable_request
      and prompt = ?prompt and collaborator = unparseable_collaborator,
      OF key_truthy unlockable_request_unlocks refl d]
  obtain p where p:
    "fst (serve_generate_proof_card (Some ''secret'') unlockable_request
            unparseable_collaborator) = Unlocked p"
    "evidence_summary p = JStr (''Observed '' @
       string_of_count (sessionCount (calculateEvidenceMetrics
         (activities_or_empty unlockable_request))) @
       '' learning sessions for '' @ skill_name unlockable_request @ '' across '' @
       string_of_count (uniqueDays (calculateEvidenceMetrics
         (activities_or_empty unlockable_request))) @
       (if unparseable_collaborator ?prompt = NotOk then '' days with process evidence.''
        else '' days.''))"
    "confidence_score p = calculateConfidenceScore
       (calculateEvidenceMetrics (activities_or_empty unlockable_request))"
    "shouldUnlock (requirements_met p)"
    by blast
  have "evidence_summary p = JStr ''Observed 3 learning sessions for Python across 3 days.''"
    unfolding p(2) n requests_activities three_observed_days_metrics
    by (simp add: string_of_count_3 unparseable_collaborator_def)
  moreover have "confidence_score p = 4953959590107545 / 9007199254740992"
    unfolding p(3) requests_activities by (rule v)
  ultimately show ?thesis using p(1,4) by blast
qed

text \<open>
  Claim C7 at a failing input. The response body is part of the collaborator's output, and
  \<open>response.json()\<close> is awaited outside the local \<open>try\<close>: when the body of an \<open>ok\<close> response
  is not JSON, a request that unlocks is answered with the error response, where unparseable
  message content gives the unlocked payload with the template.
\<close>

theorem unreadable_body_reaches_the_response:
  "serve_generate_proof_card (Some ''secret'') unlockable_request unreadable_body_collaborator =
     (ServerError BodyUnreadable,
      [make_prompt ''secret'' unlockable_request (calculateEvidenceMetrics three_observed_days)
         three_observed_days]) \<and>
   fst (serve_generate_proof_card (Some ''secret'') unlockable_request unparseable_collaborator) =
     unlockedResponse (JObj []) unlockable_request
       (calculateEvidenceMetrics three_observed_days)
       (evaluateUnlockRequirements (calculateEvidenceMetrics three_observed_days))
       (calculateConfidenceScore (calculateEvidenceMetrics three_observed_days))
       (getConfidenceLevel (calculateConfidenceScore (calculateEvidenceMetrics three_observed_days)))
       (timeSpan three_observed_days) \<and>
   unlockedResponse (JObj []) unlockable_request
       (calculateEvidenceMetrics three_observed_days)
       (evaluateUnlockRequirements (calculateEvidenceMetrics three_observed_days))
       (calculateConfidenceScore (calculateEvidenceMetrics three_observed_days))
       (getConfidenceLevel (calculateConfidenceScore (calculateEvidenceMetrics three_observed_days)))
       (timeSpan three_observed_days) \<noteq> ServerError BodyUnreadable"
  unfolding serve_unlocked [OF key_truthy unlockable_request_unlocks]
  by (simp add: Let_def unreadable_body_collaborator_def unparseable_collaborator_def
      unlockedResponse_def requests_activities)

text \<open>
  Claim C3, as stated, fails: without the key the handler throws before it looks at the
  activities, and the answer is the error response, for a list that would lock as for one
  that would unlock.
\<close>

theorem missing_key_is_an_error:
  "fst (serve_generate_proof_card None empty_request failing_collaborator)
     = ServerError KeyNotConfigured \<and>
   fst (serve_generate_proof_card None unlockable_request failing_collaborator)
     = ServerError KeyNotConfigured \<and>
   fst (serve_generate_proof_card (Some []) unlockable_request failing_collaborator)
     = ServerError KeyNotConfigured"
  by (simp add: serve_not_configured truthy_str_def)

text \<open>
  Claim C3, amended. Without the key (unset or empty) every request is answered with the
  error response and the collaborator is not called. With the key, a list that does not
  unlock gives the locked payload without a call, and a list that unlocks gives, when the
  collaborator answers with a failure status, the fallback unlocked payload.
\<close>

theorem missing_key_blocks_evaluation:
  "(\<not> truthy_str key \<longrightarrow>
      serve_generate_proof_card key content collaborator = (ServerError KeyNotConfigured, [])) \<and>
   (truthy_str key \<and> \<not> shouldUnlock (evaluateUnlockRequirements
        (calculateEvidenceMetrics (activities_or_empty content))) \<longrightarrow>
      serve_generate_proof_card key content collaborator =
        (Locked (lockedResponse (calculateEvidenceMetrics (activities_or_empty content))
           (evaluateUnlockRequirements
             (calculateEvidenceMetrics (activities_or_empty content)))), [])) \<and>
   (truthy_str key \<and> shouldUnlock (evaluateUnlockRequirements
        (calculateEvidenceMetrics (activities_or_empty content))) \<and>
    collaborator (make_prompt (the key) content
        (calculateEvidenceMetrics (activities_or_empty content)) (activities_or_empty content))
      = NotOk \<longrightarrow>
      fst (serve_generate_proof_card key content collaborator) =
        Unlocked (fallbackResponse content
          (calculateEvidenceMetrics (activities_or_empty content))
          (evaluateUnlockRequirements (calculateEvidenceMetrics (activities_or_empty content)))
          (calculateConfidenceScore (calculateEvidenceMetrics (activities_or_empty content)))
          (getConfidenceLevel (calculateConfidenceScore
            (calculateEvidenceMetrics (activities_or_empty content))))
          (timeSpan (activities_or_empty content))))"
proof (intro conjI impI)
  assume "\<not> truthy_str key"
  then show "serve_generate_proof_card key content collaborator = (ServerError KeyNotConfigured, [])"
    by (rule serve_not_configured)
next
  assume "truthy_str key \<and> \<not> shouldUnlock (evaluateUnlockRequirements
        (calculateEvidenceMetrics (activities_or_empty content)))"
  then show "serve_generate_proof_card key content collaborator =
        (Locked (lockedResponse (calculateEvidenceMetrics (activities_or_empty content))
           (evaluateUnlockRequirements
             (calculateEvidenceMetrics (activities_or_empty content)))), [])"
    by (simp add: serve_locked)
next
  assume h: "truthy_str key \<and> shouldUnlock (evaluateUnlockRequirements
        (calculateEvidenceMetrics (activities_or_empty content))) \<and>
    collaborator (make_prompt (the key) content
        (calculateEvidenceMetrics (activities_or_empty content)) (activities_or_empty content))
      = NotOk"
  then have k: "truthy_str key" and u: "shouldUnlock (evaluateUnlockRequirements
        (calculateEvidenceMetrics (activities_or_empty content)))" by simp_all
  show "fst (serve_generate_proof_card key content collaborator) =
        Unlocked (fallbackResponse content
          (calculateEvidenceMetrics (activities_or_empty content))
          (evaluateUnlockRequirements (calculateEvidenceMetrics (activities_or_empty content)))
          (calculateConfidenceScore (calculateEvidenceMetrics (activities_or_empty content)))
          (getConfidenceLevel (calculateConfidenceScore
            (calculateEvidenceMetrics (activities_or_empty content))))
          (timeSpan (activities_or_empty content)))"
    unfolding serve_unlocked [OF k u] Let_def using h by simp
qed

theorem missing_key_blocks_evaluation_witness:
  "serve_generate_proof_card None unlockable_request failing_collaborator
     = (ServerError KeyNotConfigured, []) \<and>
   serve_generate_proof_card (Some ''secret'') empty_request failing_collaborator
     = (Locked (lockedResponse (calculateEvidenceMetrics [])
         (evaluateUnlockRequirements (calculateEvidenceMetrics []))), []) \<and>
   fst (serve_generate_proof_card (Some ''secret'') unlockable_request failing_collaborator) =
     Unlocked (fallbackResponse unlockable_request
       (calculateEvidenceMetrics three_observed_days)
       (evaluateUnlockRequirements (calculateEvidenceMetrics three_observed_days))
       (calculateConfidenceScore (calculateEvidenceMetrics three_observed_days))
       (getConfidenceLevel (calculateConfidenceScore (calculateEvidenceMetrics three_observed_days)))
       (timeSpan three_observed_days))"
proof -
  have n: "\<not> truthy_str (None :: string option)" by (simp add: truthy_str_def)
  have f: "failing_collaborator (make_prompt (the (Some ''secret'')) unlockable_request
        (calculateEvidenceMetrics (activities_or_empty unlockable_request))
        (activities_or_empty unlockable_request)) = NotOk"
    by (simp add: failing_collaborator_def)
  show ?thesis
    using missing_key_blocks_evaluation [of None unlockable_request failing_collaborator]
      missing_key_blocks_evaluation [of "Some ''secret''" empty_request failing_collaborator]
      missing_key_blocks_evaluation [of "Some ''secret''" unlockable_request failing_collaborator]
      n key_truthy empty_request_locks unlockable_request_unlocks f
    by (simp add: requests_activities)
qed

text \<open>
  Claim C1 at a failing input. For one request that unlocks, a collaborator answering with a
  failure status gives the unlocked payload, while a collaborator whose \<open>fetch\<close> rejects,
  or whose content is the JSON text \<open>null\<close>, gives the error response: the exception is
  caught only by the handler's outer \<open>catch\<close>.
\<close>

theorem thrown_failure_reaches_the_response:
  "fst (serve_generate_proof_card (Some ''secret'') unlockable_request failing_collaborator) =
     Unlocked (fallbackResponse unlockable_request
       (calculateEvidenceMetrics three_observed_days)
       (evaluateUnlockRequirements (calculateEvidenceMetrics three_observed_days))
       (calculateConfidenceScore (calculateEvidenceMetrics three_observed_days))
       (getConfidenceLevel (calculateConfidenceScore (calculateEvidenceMetrics three_observed_days)))
       (timeSpan three_observed_days)) \<and>
   fst (serve_generate_proof_card (Some ''secret'') unlockable_request rejecting_collaborator)
     = ServerError FetchFailed \<and>
   fst (serve_generate_proof_card (Some ''secret'') unlockable_request null_collaborator)
     = ServerError NullProperty"
  unfolding serve_unlocked [OF key_truthy unlockable_request_unlocks]
  by (simp add: Let_def failing_collaborator_def rejecting_collaborator_def null_collaborator_def
      unlockedResponse_def requests_activities)

end
